theory Spec2Isabelle
  imports Complex_Main "HOL-Library.AList"
begin

section \<open>Python values used by the dashboard\<close>

text \<open>
  Strings are lists of characters. The case conversions act on the letters a-z and A-Z,
  which is what \<^verbatim>\<open>str.upper\<close> and \<^verbatim>\<open>str.lower\<close> do on ASCII text; the white space removed
  by \<^verbatim>\<open>str.strip\<close> is Python's: TAB, LF, VT, FF, CR, FS, GS, RS, US, SPACE, NEL and NBSP.
\<close>

definition py_isspace :: "char \<Rightarrow> bool" where
  "py_isspace c = (c \<in> set [CHR 0x09, CHR 0x0A, CHR 0x0B, CHR 0x0C, CHR 0x0D,
                             CHR 0x1C, CHR 0x1D, CHR 0x1E, CHR 0x1F, CHR 0x20,
                             CHR 0x85, CHR 0xA0])"

definition py_strip :: "string \<Rightarrow> string" where
  "py_strip s = rev (dropWhile py_isspace (rev (dropWhile py_isspace s)))"

definition upper_char :: "char \<Rightarrow> char" where
  "upper_char c =
     (case map_of (zip ''abcdefghijklmnopqrstuvwxyz'' ''ABCDEFGHIJKLMNOPQRSTUVWXYZ'') c of
        Some u \<Rightarrow> u | None \<Rightarrow> c)"

definition lower_char :: "char \<Rightarrow> char" where
  "lower_char c =
     (case map_of (zip ''ABCDEFGHIJKLMNOPQRSTUVWXYZ'' ''abcdefghijklmnopqrstuvwxyz'') c of
        Some l \<Rightarrow> l | None \<Rightarrow> c)"

definition py_upper :: "string \<Rightarrow> string" where
  "py_upper s = map upper_char s"

definition py_lower :: "string \<Rightarrow> string" where
  "py_lower s = map lower_char s"

text \<open>\<^verbatim>\<open>s.replace(c, t)\<close> for a one-character pattern \<open>c\<close>: every occurrence is replaced.\<close>

definition py_replace :: "char \<Rightarrow> string \<Rightarrow> string \<Rightarrow> string" where
  "py_replace c t s = concat (map (\<lambda>x. if x = c then t else [x]) s)"

text \<open>
  A Python float is a finite number, one of the two infinities, or NaN. A finite value is
  written as the rational number it is; comparison is IEEE comparison, false whenever NaN
  takes part.
\<close>

datatype pyfloat = Fin rat | PInf | NInf | NaN

fun pf_le :: "pyfloat \<Rightarrow> pyfloat \<Rightarrow> bool" where
  "pf_le NaN _ = False"
| "pf_le _ NaN = False"
| "pf_le NInf _ = True"
| "pf_le _ PInf = True"
| "pf_le (Fin a) (Fin b) = (a \<le> b)"
| "pf_le PInf _ = False"
| "pf_le _ NInf = False"

subsection \<open>binary64 arithmetic\<close>

text \<open>
  The finite floats are the binary64 numbers: whole multiples of a power of two, the multiple
  below \<open>2^53\<close> in size and the power between \<open>2^-1074\<close> and \<open>2^971\<close>. Every arithmetic
  operation of the program on floats returns the exact result rounded to the nearest of
  them, a tie going to the even multiple. \<open>normaliza\<close> scales a magnitude into
  \<open>[2^52, 2^53)\<close> where the range of the exponent allows it, \<open>r64\<close> rounds, and \<open>f64\<close>
  adds the overflow to an infinity.
\<close>

definition arredonda_par :: "rat \<Rightarrow> int" where
  "arredonda_par x =
     (let f = \<lfloor>x\<rfloor>; d = x - of_int f
      in if d < 1 / 2 then f else if 1 / 2 < d then f + 1 else if even f then f else f + 1)"

fun normaliza :: "nat \<Rightarrow> rat \<Rightarrow> int \<Rightarrow> rat \<times> int" where
  "normaliza 0 m e = (m, e)"
| "normaliza (Suc n) m e =
     (if 2 ^ 53 \<le> m \<and> e < 972 then normaliza n (m / 2) (e + 1)
      else if m < 2 ^ 52 \<and> - 1074 < e then normaliza n (m * 2) (e - 1)
      else (m, e))"

definition r64 :: "rat \<Rightarrow> rat" where
  "r64 x =
     (case normaliza 1074 \<bar>x\<bar> 0 of
        (m, e) \<Rightarrow> sgn x * of_int (arredonda_par m)
                    * (if 0 \<le> e then 2 ^ nat e else 1 / 2 ^ nat (- e)))"

definition f64 :: "rat \<Rightarrow> pyfloat" where
  "f64 x = (if 2 ^ 1024 \<le> \<bar>r64 x\<bar> then (if 0 < x then PInf else NInf) else Fin (r64 x))"

text \<open>The exception classes that matter to the handlers of the program.\<close>

datatype exn = ValueError | TypeError | OverflowError | FileNotFoundError | OtherError

subsection \<open>Reading numbers from text\<close>

text \<open>
  \<^verbatim>\<open>float(s)\<close> on a string follows the grammar of the language reference: surrounding white
  space is dropped, then an optional sign, then \<^verbatim>\<open>inf\<close>, \<^verbatim>\<open>infinity\<close> or \<^verbatim>\<open>nan\<close> in any case,
  or a decimal number with optional fraction and exponent whose digit groups may be
  separated by single underscores. Anything else raises \<^verbatim>\<open>ValueError\<close>. The white space
  that \<^verbatim>\<open>float\<close> drops is TAB, LF, VT, FF, CR, SPACE, NEL and NBSP: the separators FS, GS, RS
  and US, which \<^verbatim>\<open>str.strip\<close> removes, are an error here. The decimal value is rounded to
  binary64, a value too large becoming an infinity. The evaluator below takes the
  conversion as a parameter \<open>fl\<close>, so that what is proved about it holds for every
  conversion function, and \<open>py_float\<close> is the instance used on concrete inputs.
\<close>

definition float_isspace :: "char \<Rightarrow> bool" where
  "float_isspace c = (c \<in> set [CHR 0x09, CHR 0x0A, CHR 0x0B, CHR 0x0C, CHR 0x0D, CHR 0x20,
                                CHR 0x85, CHR 0xA0])"

definition float_strip :: "string \<Rightarrow> string" where
  "float_strip s = rev (dropWhile float_isspace (rev (dropWhile float_isspace s)))"

definition digit_of :: "char \<Rightarrow> nat option" where
  "digit_of c = map_of (zip ''0123456789'' [0, 1, 2, 3, 4, 5, 6, 7, 8, 9]) c"

fun digits_acc :: "nat \<Rightarrow> nat \<Rightarrow> string \<Rightarrow> (nat \<times> nat) option" where
  "digits_acc v n [] = Some (v, n)"
| "digits_acc v n [c] =
     (case digit_of c of None \<Rightarrow> None | Some k \<Rightarrow> Some (10 * v + k, Suc n))"
| "digits_acc v n (c # d # ds) =
     (if c = CHR ''_'' then
        (case digit_of d of None \<Rightarrow> None | Some k \<Rightarrow> digits_acc (10 * v + k) (Suc n) ds)
      else
        (case digit_of c of None \<Rightarrow> None | Some k \<Rightarrow> digits_acc (10 * v + k) (Suc n) (d # ds)))"

text \<open>A digit group: its value and its number of digits.\<close>

definition digitpart :: "string \<Rightarrow> (nat \<times> nat) option" where
  "digitpart s =
     (case s of [] \<Rightarrow> None
      | c # cs \<Rightarrow> (case digit_of c of None \<Rightarrow> None | Some k \<Rightarrow> digits_acc k 1 cs))"

definition split_at :: "(char \<Rightarrow> bool) \<Rightarrow> string \<Rightarrow> string \<times> string option" where
  "split_at P s =
     (takeWhile (\<lambda>c. \<not> P c) s,
      case dropWhile (\<lambda>c. \<not> P c) s of [] \<Rightarrow> None | _ # r \<Rightarrow> Some r)"

definition split_sign :: "string \<Rightarrow> bool \<times> string" where
  "split_sign s =
     (case s of [] \<Rightarrow> (False, [])
      | c # cs \<Rightarrow> if c = CHR ''-'' then (True, cs)
                  else if c = CHR ''+'' then (False, cs) else (False, s))"

definition mantissa :: "string \<Rightarrow> string option \<Rightarrow> rat option" where
  "mantissa ip fp =
     (case fp of
        None \<Rightarrow> map_option (\<lambda>(v, n). of_nat v) (digitpart ip)
      | Some f \<Rightarrow>
          if ip = [] then map_option (\<lambda>(v, n). of_nat v / 10 ^ n) (digitpart f)
          else if f = [] then map_option (\<lambda>(v, n). of_nat v) (digitpart ip)
          else (case (digitpart ip, digitpart f) of
                  (Some (v, _), Some (w, n)) \<Rightarrow> Some (of_nat v + of_nat w / 10 ^ n)
                | _ \<Rightarrow> None))"

definition exponent :: "string \<Rightarrow> int option" where
  "exponent e =
     (case split_sign e of
        (neg, ds) \<Rightarrow> map_option (\<lambda>(v, n). if neg then - int v else int v) (digitpart ds))"

definition floatnumber :: "string \<Rightarrow> rat option" where
  "floatnumber s =
     (case split_at (\<lambda>c. c = CHR ''e'' \<or> c = CHR ''E'') s of
        (mant, ex) \<Rightarrow>
          (case split_at (\<lambda>c. c = CHR ''.'') mant of
             (ip, fp) \<Rightarrow>
               (case mantissa ip fp of
                  None \<Rightarrow> None
                | Some m \<Rightarrow>
                    (case ex of
                       None \<Rightarrow> Some m
                     | Some e \<Rightarrow>
                         (case exponent e of
                            None \<Rightarrow> None
                          | Some k \<Rightarrow>
                              Some (if 0 \<le> k then m * 10 ^ nat k else m / 10 ^ nat (- k)))))))"

definition py_float :: "string \<Rightarrow> exn + pyfloat" where
  "py_float s =
     (case split_sign (float_strip s) of
        (neg, body) \<Rightarrow>
          if py_lower body = ''inf'' \<or> py_lower body = ''infinity''
          then Inr (if neg then NInf else PInf)
          else if py_lower body = ''nan'' then Inr NaN
          else (case floatnumber body of
                  None \<Rightarrow> Inl ValueError
                | Some r \<Rightarrow> Inr (f64 (if neg then - r else r))))"

section \<open>Sample records\<close>

text \<open>
  One row of the data set, with the columns the program reads. A missing value (None, NaN,
  NA) is \<open>None\<close>; a numeric cell holding NaN is missing as well, as \<^verbatim>\<open>pd.isna\<close> has it.
  The column \<open>conforme\<close> is the derived one the aggregators add.
\<close>

record row =
  ident :: "string option"
  bairro :: "string option"
  ponto_de_coleta :: "string option"
  data_da_coleta :: "string option"
  parametro :: "string option"
  resultado :: "string option"
  resultado_numerico :: "pyfloat option"
  unidade_de_medida :: "string option"
  latitude :: "pyfloat option"
  longitude :: "pyfloat option"
  ano :: "int option"
  mes :: "int option"
  conforme :: "bool option"

definition isna_num :: "pyfloat option \<Rightarrow> bool" where
  "isna_num x = (x = None \<or> x = Some NaN)"

section \<open>Reference table\<close>

datatype regra = Ausencia string | Maximo rat | Intervalo rat rat

definition VALORES_REFERENCIA :: "(string \<times> regra) list" where
  "VALORES_REFERENCIA =
     [(''Escherichia coli'', Ausencia ''AUSENTE''),
      (''Coliformes totais'', Ausencia ''AUSENTE''),
      (''Turbidez (uT)'', Maximo 5),
      (''Cloro residual livre (mg/L)'', Intervalo (2 / 10) 5),
      (''Fluoreto (mg/L)'', Maximo (15 / 10))]"

section \<open>Compliance evaluator\<close>

text \<open>
  \<open>conformidade_try\<close> is the body of the \<^verbatim>\<open>try\<close> block of \<^verbatim>\<open>verificar_conformidade\<close>:
  it returns a verdict or raises. The conversion \<^verbatim>\<open>float(str(...).replace(',', '.'))\<close> is
  guarded by a handler for \<^verbatim>\<open>ValueError\<close> and \<^verbatim>\<open>TypeError\<close> only; any other exception
  leaves the block. \<open>verificar_conformidade\<close> adds the outer handler, which turns every
  exception into \<^verbatim>\<open>False\<close>.
\<close>

definition numeric_test :: "regra \<Rightarrow> pyfloat \<Rightarrow> bool" where
  "numeric_test ref valor =
     (case ref of
        Maximo b \<Rightarrow> pf_le valor (Fin b)
      | Intervalo lo hi \<Rightarrow> pf_le (Fin lo) valor \<and> pf_le valor (Fin hi)
      | Ausencia _ \<Rightarrow> False)"

definition conformidade_try :: "(string \<Rightarrow> exn + pyfloat) \<Rightarrow> row \<Rightarrow> exn + bool" where
  "conformidade_try fl r =
     (case parametro r of
        None \<Rightarrow> Inr False
      | Some p \<Rightarrow>
          (case map_of VALORES_REFERENCIA p of
             None \<Rightarrow> Inr False
           | Some (Ausencia v) \<Rightarrow>
               Inr ((case resultado r of
                       Some s \<Rightarrow> py_upper (py_strip s)
                     | None \<Rightarrow> []) = v)
           | Some ref \<Rightarrow>
               if isna_num (resultado_numerico r) then
                 (case resultado r of
                    None \<Rightarrow> Inr False
                  | Some s \<Rightarrow>
                      (case fl (py_replace (CHR '','') ''.'' s) of
                         Inl e \<Rightarrow> if e = ValueError \<or> e = TypeError
                                   then Inr False else Inl e
                       | Inr valor \<Rightarrow> Inr (numeric_test ref valor)))
               else
                 (case resultado_numerico r of
                    Some valor \<Rightarrow> Inr (numeric_test ref valor)
                  | None \<Rightarrow> Inr False)))"

definition verificar_conformidade :: "(string \<Rightarrow> exn + pyfloat) \<Rightarrow> row \<Rightarrow> bool" where
  "verificar_conformidade fl r =
     (case conformidade_try fl r of Inl e \<Rightarrow> False | Inr b \<Rightarrow> b)"

text \<open>
  The numeric value the evaluator works with, written after the specification: the numeric
  result when it is present, otherwise the textual result read as a float once every comma
  has become a point, and nothing when neither is there or the text cannot be read.
\<close>

definition valor_resolvido :: "(string \<Rightarrow> exn + pyfloat) \<Rightarrow> row \<Rightarrow> pyfloat option" where
  "valor_resolvido fl r =
     (if \<not> isna_num (resultado_numerico r) then resultado_numerico r
      else (case resultado r of
              None \<Rightarrow> None
            | Some s \<Rightarrow> (case fl (py_replace (CHR '','') ''.'' s) of
                          Inl e \<Rightarrow> None | Inr v \<Rightarrow> Some v)))"

text \<open>A sample with a parameter, a result and a numeric result, every other column empty.\<close>

definition amostra :: "string option \<Rightarrow> string option \<Rightarrow> pyfloat option \<Rightarrow> row" where
  "amostra p res num =
     \<lparr>ident = None, bairro = None, ponto_de_coleta = None, data_da_coleta = None,
      parametro = p, resultado = res, resultado_numerico = num, unidade_de_medida = None,
      latitude = None, longitude = None, ano = None, mes = None, conforme = None\<rparr>"


section \<open>Record sets\<close>

text \<open>
  A data frame is its list of column names and its rows. A row is read through the
  columns of its frame: a column the frame does not have reads as missing, which is what
  \<^verbatim>\<open>row.get\<close> returns for it.
\<close>

record frame =
  cols :: "string list"
  rws :: "row list"

definition visivel :: "string list \<Rightarrow> row \<Rightarrow> row" where
  "visivel cs r =
     \<lparr>ident = (if ''id'' \<in> set cs then ident r else None),
      bairro = (if ''bairro'' \<in> set cs then bairro r else None),
      ponto_de_coleta = (if ''ponto_de_coleta'' \<in> set cs then ponto_de_coleta r else None),
      data_da_coleta = (if ''data_da_coleta'' \<in> set cs then data_da_coleta r else None),
      parametro = (if ''parametro'' \<in> set cs then parametro r else None),
      resultado = (if ''resultado'' \<in> set cs then resultado r else None),
      resultado_numerico =
        (if ''resultado_numerico'' \<in> set cs then resultado_numerico r else None),
      unidade_de_medida =
        (if ''unidade_de_medida'' \<in> set cs then unidade_de_medida r else None),
      latitude = (if ''latitude'' \<in> set cs then latitude r else None),
      longitude = (if ''longitude'' \<in> set cs then longitude r else None),
      ano = (if ''ano'' \<in> set cs then ano r else None),
      mes = (if ''mes'' \<in> set cs then mes r else None),
      conforme = (if ''conforme'' \<in> set cs then conforme r else None)\<rparr>"

definition linhas :: "frame \<Rightarrow> row list" where
  "linhas df = map (visivel (cols df)) (rws df)"

definition df_len :: "frame \<Rightarrow> nat" where
  "df_len df = length (rws df)"

text \<open>\<^verbatim>\<open>df.empty\<close>: no rows or no columns.\<close>

definition df_empty :: "frame \<Rightarrow> bool" where
  "df_empty df = (rws df = [] \<or> cols df = [])"

definition has_col :: "string \<Rightarrow> frame \<Rightarrow> bool" where
  "has_col c df = (c \<in> set (cols df))"

text \<open>\<^verbatim>\<open>df[mask]\<close> with a mask computed row by row: same columns, the rows that satisfy it.\<close>

definition sel :: "(row \<Rightarrow> bool) \<Rightarrow> frame \<Rightarrow> frame" where
  "sel P df = df\<lparr>rws := filter (\<lambda>r. P (visivel (cols df) r)) (rws df)\<rparr>"

text \<open>
  \<^verbatim>\<open>df['conforme'] = df.apply(verificar_conformidade, axis=1)\<close>: the column is added when
  the frame does not have it, and filled with the verdict of every row.
\<close>

definition com_conforme :: "(string \<Rightarrow> exn + pyfloat) \<Rightarrow> frame \<Rightarrow> frame" where
  "com_conforme fl df =
     \<lparr>cols = (if ''conforme'' \<in> set (cols df) then cols df else cols df @ [''conforme'']),
      rws = map (\<lambda>r. r\<lparr>conforme := Some (verificar_conformidade fl (visivel (cols df) r))\<rparr>)
              (rws df)\<rparr>"

text \<open>
  \<^verbatim>\<open>df['conforme'].mean()\<close> on a frame with rows: the number of rows marked true and the
  number of rows, both floats, divided. The two counts are whole numbers that a float holds
  exactly (a frame has far fewer than \<open>2^53\<close> rows); the quotient is rounded.
\<close>

definition mean_conforme :: "frame \<Rightarrow> rat" where
  "mean_conforme df =
     r64 (of_nat (length (filter (\<lambda>r. conforme r = Some True) (linhas df)))
            / of_nat (length (linhas df)))"

text \<open>\<^verbatim>\<open>s.unique()\<close>: the distinct values in order of first appearance, a missing value included.\<close>

function unique :: "'a list \<Rightarrow> 'a list" where
  "unique [] = []"
| "unique (x # xs) = x # unique (filter (\<lambda>y. y \<noteq> x) xs)"
  by pat_completeness auto
termination
  by (relation "measure length") (auto simp: less_Suc_eq_le)

text \<open>\<^verbatim>\<open>s.nunique()\<close>: the number of distinct values that are not missing.\<close>

definition nunique :: "'a option list \<Rightarrow> nat" where
  "nunique xs = length (filter (\<lambda>x. x \<noteq> None) (unique xs))"

section \<open>Result dictionaries\<close>

text \<open>
  The aggregators return dictionaries from names to numbers, strings or \<^verbatim>\<open>None\<close>. A number
  is a whole number or a float, the float written as the rational number it is. A
  dictionary is an association list in insertion order; assigning to a key replaces its
  value in place or appends the key.
\<close>

datatype pyval = VNone | VInt int | VNum rat | VStr string

type_synonym pydict = "(string \<times> pyval) list"

definition dict_get :: "pydict \<Rightarrow> string \<Rightarrow> pyval \<Rightarrow> pyval" where
  "dict_get d k dflt = (case map_of d k of None \<Rightarrow> dflt | Some v \<Rightarrow> v)"

definition num_of :: "pyval \<Rightarrow> rat option" where
  "num_of v = (case v of VInt i \<Rightarrow> Some (of_int i) | VNum x \<Rightarrow> Some x | _ \<Rightarrow> None)"

definition dict_num :: "pydict \<Rightarrow> string \<Rightarrow> rat option" where
  "dict_num d k = (case map_of d k of None \<Rightarrow> None | Some v \<Rightarrow> num_of v)"

definition val_of :: "string option \<Rightarrow> pyval" where
  "val_of x = (case x of None \<Rightarrow> VNone | Some s \<Rightarrow> VStr s)"

definition parametros_nomeados :: "string list" where
  "parametros_nomeados =
     [''Escherichia coli'', ''Coliformes totais'', ''Turbidez (uT)'',
      ''Cloro residual livre (mg/L)'', ''Fluoreto (mg/L)'']"

text \<open>
  \<^verbatim>\<open>param.lower().replace(' ', '_').replace('(', '').replace(')', '').replace('/', '_')\<close>
\<close>

definition param_key :: "string \<Rightarrow> string" where
  "param_key param =
     py_replace (CHR ''/'') ''_''
       (py_replace (CHR '')'') []
          (py_replace (CHR ''('') []
             (py_replace (CHR '' '') ''_'' (py_lower param))))"

section \<open>Overall statistics\<close>

text \<open>\<^verbatim>\<open>df['conforme'].mean() * 100 if not df['conforme'].empty else 0\<close>\<close>

definition pct_conforme :: "frame \<Rightarrow> pyval" where
  "pct_conforme df = (if rws df = [] then VInt 0 else VNum (r64 (mean_conforme df * 100)))"

text \<open>\<^verbatim>\<open>100 - v\<close> for a number \<open>v\<close>: exact on a whole number, rounded on a float.\<close>

definition cem_menos :: "pyval \<Rightarrow> pyval" where
  "cem_menos v =
     (case v of VInt i \<Rightarrow> VInt (100 - i) | VNum x \<Rightarrow> VNum (r64 (100 - x)) | _ \<Rightarrow> VNone)"

definition stats_parametro :: "frame \<Rightarrow> string \<Rightarrow> pyval" where
  "stats_parametro df_copy param =
     (if has_col ''parametro'' df_copy \<and> \<not> df_empty df_copy then
        (let df_param = sel (\<lambda>r. parametro r = Some param) df_copy in
         if \<not> df_empty df_param then VNum (r64 (mean_conforme df_param * 100)) else VInt 0)
      else VInt 0)"

definition stats_apelidos :: "pydict \<Rightarrow> pydict" where
  "stats_apelidos stats =
     (let stats = AList.update ''conformidade_ecoli''
                    (dict_get stats ''conformidade_escherichia_coli'' (VInt 0)) stats;
          stats = AList.update ''conformidade_coliformes''
                    (dict_get stats ''conformidade_coliformes_totais'' (VInt 0)) stats;
          stats = AList.update ''conformidade_turbidez''
                    (dict_get stats ''conformidade_turbidez_ut'' (VInt 0)) stats;
          stats = AList.update ''conformidade_cloro''
                    (dict_get stats ''conformidade_cloro_residual_livre_mg_l'' (VInt 0)) stats;
          stats = AList.update ''conformidade_fluoreto''
                    (dict_get stats ''conformidade_fluoreto_mg_l'' (VInt 0)) stats
      in stats)"

text \<open>
  The body of \<^verbatim>\<open>calcular_estatisticas\<close>, on the frame as a value: \<open>df_copy\<close> is rebound where
  the source assigns the compliance column to the copy. Which object each assignment
  changes is followed in \<open>calcular_estatisticas_st\<close> below. On rows of this type nothing in
  the body raises, and the handler that returns the all-zero dictionary is never entered.
\<close>

definition calcular_estatisticas :: "(string \<Rightarrow> exn + pyfloat) \<Rightarrow> frame \<Rightarrow> pydict" where
  "calcular_estatisticas fl df =
     (let df_copy = df;
          stats = AList.update ''total_amostras'' (VInt (int (df_len df_copy))) [];
          stats = AList.update ''bairros_unicos''
                    (VInt (if has_col ''bairro'' df_copy
                           then int (nunique (map bairro (linhas df_copy))) else 0)) stats;
          df_copy = (if \<not> df_empty df_copy then com_conforme fl df_copy else df_copy);
          stats = (if \<not> df_empty df_copy then
                     (let stats = AList.update ''conformidade_geral'' (pct_conforme df_copy) stats
                      in AList.update ''nao_conformidade_geral''
                           (cem_menos (dict_get stats ''conformidade_geral'' VNone)) stats)
                   else
                     AList.update ''nao_conformidade_geral'' (VInt 100)
                       (AList.update ''conformidade_geral'' (VInt 0) stats));
          stats = foldl (\<lambda>st param.
                      AList.update (''conformidade_'' @ param_key param)
                        (stats_parametro df_copy param) st)
                    stats parametros_nomeados
      in stats_apelidos stats)"

text \<open>The number of rows the evaluator accepts.\<close>

definition conformes :: "(string \<Rightarrow> exn + pyfloat) \<Rightarrow> row list \<Rightarrow> nat" where
  "conformes fl rs = length (filter (verificar_conformidade fl) rs)"


section \<open>Grouping aggregators\<close>

text \<open>\<^verbatim>\<open>column == value\<close>, cell by cell: a missing cell equals nothing, not even a missing key.\<close>

definition eq_cel :: "'a option \<Rightarrow> 'a option \<Rightarrow> bool" where
  "eq_cel x k = (x \<noteq> None \<and> x = k)"

text \<open>
  The loop over the five named parameters that the neighbourhood and the month aggregator
  both run on a group, and the five short names they add afterwards.
\<close>

definition pct_parametro :: "frame \<Rightarrow> string \<Rightarrow> pyval" where
  "pct_parametro df_grupo param =
     (if has_col ''parametro'' df_grupo then
        (let df_param = sel (\<lambda>r. parametro r = Some param) df_grupo in
         if \<not> df_empty df_param then VNum (r64 (mean_conforme df_param * 100)) else VNone)
      else VNone)"

definition percentuais :: "frame \<Rightarrow> pydict \<Rightarrow> pydict" where
  "percentuais df_grupo dados =
     foldl (\<lambda>d param.
          AList.update (''percentual_'' @ param_key param) (pct_parametro df_grupo param) d)
       dados parametros_nomeados"

definition percentuais_apelidos :: "pydict \<Rightarrow> pydict" where
  "percentuais_apelidos dados =
     (let dados = AList.update ''percentual_ecoli''
                    (dict_get dados ''percentual_escherichia_coli'' VNone) dados;
          dados = AList.update ''percentual_coliformes''
                    (dict_get dados ''percentual_coliformes_totais'' VNone) dados;
          dados = AList.update ''percentual_turbidez''
                    (dict_get dados ''percentual_turbidez_ut'' VNone) dados;
          dados = AList.update ''percentual_cloro''
                    (dict_get dados ''percentual_cloro_residual_livre_mg_l'' VNone) dados;
          dados = AList.update ''percentual_fluoreto''
                    (dict_get dados ''percentual_fluoreto_mg_l'' VNone) dados
      in dados)"

text \<open>One iteration of the loop of \<^verbatim>\<open>obter_dados_bairros\<close>: the dictionary of one neighbourhood.\<close>

definition dados_bairro ::
  "(string \<Rightarrow> exn + pyfloat) \<Rightarrow> frame \<Rightarrow> string option \<Rightarrow> pydict" where
  "dados_bairro fl df_copy bairro_nome =
     (let df_bairro = sel (\<lambda>r. eq_cel (bairro r) bairro_nome) df_copy;
          total_analises = df_len df_bairro;
          vazio = df_empty df_bairro;
          df_bairro = (if \<not> vazio then com_conforme fl df_bairro else df_bairro);
          percentual_conforme = (if \<not> vazio then pct_conforme df_bairro else VInt 0);
          dados = [(''bairro'', val_of bairro_nome),
                   (''total_analises'', VInt (int total_analises)),
                   (''percentual_conforme'', percentual_conforme)]
      in percentuais_apelidos (percentuais df_bairro dados))"

definition obter_dados_bairros :: "(string \<Rightarrow> exn + pyfloat) \<Rightarrow> frame \<Rightarrow> pydict list" where
  "obter_dados_bairros fl df =
     (if df_empty df \<or> \<not> has_col ''bairro'' df then []
      else (let df_copy = df
            in map (dados_bairro fl df_copy) (unique (map bairro (linhas df_copy)))))"

definition nomes_meses :: "string list" where
  "nomes_meses =
     [''Janeiro'', ''Fevereiro'', ''Mar'' @ [CHR 0xE7] @ ''o'', ''Abril'', ''Maio'', ''Junho'',
      ''Julho'', ''Agosto'', ''Setembro'', ''Outubro'', ''Novembro'', ''Dezembro'']"

text \<open>
  One iteration of the loop of \<^verbatim>\<open>obter_distribuicao_mes\<close>: the dictionary of a month that
  has samples, nothing for a month that has none. The month number runs from 1 to 12, so
  the name is always found.
\<close>

definition dados_mes :: "(string \<Rightarrow> exn + pyfloat) \<Rightarrow> frame \<Rightarrow> int \<Rightarrow> pydict list" where
  "dados_mes fl df_copy mes_num =
     (let df_mes_atual = sel (\<lambda>r. mes r = Some mes_num) df_copy;
          total_amostras = df_len df_mes_atual
      in if total_amostras > 0 then
           (let df_mes_atual = com_conforme fl df_mes_atual;
                dados = [(''mes'', VInt mes_num),
                         (''nome_mes'', VStr (nomes_meses ! nat (mes_num - 1))),
                         (''total_amostras'', VInt (int total_amostras)),
                         (''percentual_conforme'', pct_conforme df_mes_atual)]
            in [percentuais_apelidos (percentuais df_mes_atual dados)])
         else [])"

text \<open>
  The month column holds integers or nothing, so \<^verbatim>\<open>pd.to_numeric(..., errors='coerce')\<close>
  leaves it as it is and \<^verbatim>\<open>dropna\<close> removes the rows without a month.
\<close>

definition dropna_mes :: "frame \<Rightarrow> frame" where
  "dropna_mes df = sel (\<lambda>r. mes r \<noteq> None) df"

definition obter_distribuicao_mes :: "(string \<Rightarrow> exn + pyfloat) \<Rightarrow> frame \<Rightarrow> pydict list" where
  "obter_distribuicao_mes fl df =
     (if df_empty df \<or> \<not> has_col ''mes'' df then []
      else (let df_copy = dropna_mes df
            in concat (map (dados_mes fl df_copy) [1, 2, 3, 4, 5, 6, 7, 8, 9, 10, 11, 12])))"

text \<open>One iteration of the loop of \<^verbatim>\<open>obter_distribuicao_ponto_coleta\<close>.\<close>

definition dados_ponto ::
  "(string \<Rightarrow> exn + pyfloat) \<Rightarrow> frame \<Rightarrow> string option \<Rightarrow> pydict list" where
  "dados_ponto fl df_copy ponto_coleta_nome =
     (let df_ponto = sel (\<lambda>r. eq_cel (ponto_de_coleta r) ponto_coleta_nome) df_copy;
          total_analises = df_len df_ponto
      in if total_analises > 0 then
           (let df_ponto = com_conforme fl df_ponto
            in [[(''ponto_de_coleta'', val_of ponto_coleta_nome),
                 (''total_analises'', VInt (int total_analises)),
                 (''percentual_conforme'', pct_conforme df_ponto)]])
         else [])"

definition obter_distribuicao_ponto_coleta ::
  "(string \<Rightarrow> exn + pyfloat) \<Rightarrow> frame \<Rightarrow> pydict list" where
  "obter_distribuicao_ponto_coleta fl df =
     (if df_empty df \<or> \<not> has_col ''ponto_de_coleta'' df then []
      else (let df_copy = df
            in concat (map (dados_ponto fl df_copy)
                         (unique (map ponto_de_coleta (linhas df_copy))))))"

text \<open>
  The percentage of compliant samples in a set of samples as the program computes it: the
  share of compliant samples, rounded, times 100, rounded.
\<close>

definition percentual :: "(string \<Rightarrow> exn + pyfloat) \<Rightarrow> row list \<Rightarrow> rat" where
  "percentual fl rs = r64 (r64 (of_nat (conformes fl rs) / of_nat (length rs)) * 100)"

text \<open>The percentage of a group for one parameter: nothing when the set is empty.\<close>

definition pct_ou_nulo :: "(string \<Rightarrow> exn + pyfloat) \<Rightarrow> row list \<Rightarrow> pyval" where
  "pct_ou_nulo fl rs = (if rs = [] then VNone else VNum (percentual fl rs))"

text \<open>
  The ten entries that the loop over the named parameters and the five short names add to
  the dictionary of a group, in the order they are added.
\<close>

definition cauda_percentuais :: "frame \<Rightarrow> pydict" where
  "cauda_percentuais g =
     [(''percentual_escherichia_coli'', pct_parametro g ''Escherichia coli''),
      (''percentual_coliformes_totais'', pct_parametro g ''Coliformes totais''),
      (''percentual_turbidez_ut'', pct_parametro g ''Turbidez (uT)''),
      (''percentual_cloro_residual_livre_mg_l'', pct_parametro g ''Cloro residual livre (mg/L)''),
      (''percentual_fluoreto_mg_l'', pct_parametro g ''Fluoreto (mg/L)''),
      (''percentual_ecoli'', pct_parametro g ''Escherichia coli''),
      (''percentual_coliformes'', pct_parametro g ''Coliformes totais''),
      (''percentual_turbidez'', pct_parametro g ''Turbidez (uT)''),
      (''percentual_cloro'', pct_parametro g ''Cloro residual livre (mg/L)''),
      (''percentual_fluoreto'', pct_parametro g ''Fluoreto (mg/L)'')]"

section \<open>Reading the emitted groups\<close>

text \<open>
  The key of an emitted group when it is a text, and when it is a whole number; the sample
  count stored in an emitted group.
\<close>

definition chave_texto :: "pydict \<Rightarrow> string \<Rightarrow> string option" where
  "chave_texto d c = (case map_of d c of Some (VStr s) \<Rightarrow> Some s | _ \<Rightarrow> None)"

definition chave_inteira :: "pydict \<Rightarrow> string \<Rightarrow> int option" where
  "chave_inteira d c = (case map_of d c of Some (VInt i) \<Rightarrow> Some i | _ \<Rightarrow> None)"

definition contagem :: "pydict \<Rightarrow> string \<Rightarrow> int" where
  "contagem d c = (case map_of d c of Some (VInt i) \<Rightarrow> i | _ \<Rightarrow> 0)"

text \<open>The position at which a value first occurs in a list.\<close>

definition primeira_pos :: "'a \<Rightarrow> 'a list \<Rightarrow> nat" where
  "primeira_pos x xs = length (takeWhile (\<lambda>y. y \<noteq> x) xs)"

text \<open>
  Two small record sets with the columns of the data file: one with two located samples,
  one whose only sample has no neighbourhood, no collection point and no month.
\<close>

definition colunas_csv :: "string list" where
  "colunas_csv =
     [''id'', ''bairro'', ''ponto_de_coleta'', ''data_da_coleta'', ''parametro'', ''resultado'',
      ''resultado_numerico'', ''unidade_de_medida'', ''latitude'', ''longitude'', ''ano'',
      ''mes'']"

definition coleta ::
  "string option \<Rightarrow> string option \<Rightarrow> int option \<Rightarrow> int option \<Rightarrow> row \<Rightarrow> row" where
  "coleta b pt a m r = r\<lparr>bairro := b, ponto_de_coleta := pt, ano := a, mes := m\<rparr>"

definition amostra_norte :: row where
  "amostra_norte =
     coleta (Some ''Norte'') (Some ''P2'') (Some 2023) (Some 3)
       (amostra (Some ''Turbidez (uT)'') (Some ''4,0'') None)"

definition amostra_centro :: row where
  "amostra_centro =
     coleta (Some ''Centro'') (Some ''P1'') (Some 2022) (Some 1)
       (amostra (Some ''Escherichia coli'') (Some ''AUSENTE'') None)"

definition quadro_exemplo :: frame where
  "quadro_exemplo = \<lparr>cols = colunas_csv, rws = [amostra_norte, amostra_centro]\<rparr>"

definition amostra_sem_chave :: row where
  "amostra_sem_chave = amostra (Some ''Turbidez (uT)'') None (Some (Fin 6))"

definition quadro_sem_chave :: frame where
  "quadro_sem_chave = \<lparr>cols = colunas_csv, rws = [amostra_sem_chave]\<rparr>"

text \<open>Twenty turbidity samples, eleven of them within the limit.\<close>

definition amostra_limpa :: row where
  "amostra_limpa = amostra (Some ''Turbidez (uT)'') None (Some (Fin 4))"

definition amostra_turva :: row where
  "amostra_turva = amostra (Some ''Turbidez (uT)'') None (Some (Fin 6))"

definition quadro_vinte :: frame where
  "quadro_vinte =
     \<lparr>cols = colunas_csv, rws = replicate 11 amostra_limpa @ replicate 9 amostra_turva\<rparr>"

section \<open>Data loader\<close>

text \<open>
  The filter criteria arrive as a dictionary from the query string or from a JSON body, so
  a value is a text, a number, a boolean or null. \<open>truthy\<close> is Python's truth value.
\<close>

datatype fval = FNone | FStr string | FInt int | FNum pyfloat | FBool bool

type_synonym filtros = "(string \<times> fval) list"

definition truthy :: "fval \<Rightarrow> bool" where
  "truthy v =
     (case v of FNone \<Rightarrow> False | FStr s \<Rightarrow> s \<noteq> [] | FInt i \<Rightarrow> i \<noteq> 0
      | FNum x \<Rightarrow> x \<noteq> Fin 0 | FBool b \<Rightarrow> b)"

text \<open>\<^verbatim>\<open>filtros.get(k) and filtros[k] != 'todos'\<close>\<close>

definition filtro_ativo :: "filtros \<Rightarrow> string \<Rightarrow> bool" where
  "filtro_ativo f k =
     (case map_of f k of None \<Rightarrow> False | Some v \<Rightarrow> truthy v \<and> v \<noteq> FStr ''todos'')"

text \<open>
  \<^verbatim>\<open>int(v)\<close>: a text is a whole number in decimal digits with an optional sign, surrounding
  white space dropped; a float is cut towards zero.
\<close>

definition py_int :: "fval \<Rightarrow> exn + int" where
  "py_int v =
     (case v of
        FNone \<Rightarrow> Inl TypeError
      | FStr s \<Rightarrow>
          (case split_sign (float_strip s) of
             (neg, ds) \<Rightarrow>
               (case digitpart ds of
                  None \<Rightarrow> Inl ValueError
                | Some (n, _) \<Rightarrow> Inr (if neg then - int n else int n)))
      | FInt i \<Rightarrow> Inr i
      | FNum x \<Rightarrow>
          (case x of
             Fin q \<Rightarrow> Inr (if 0 \<le> q then \<lfloor>q\<rfloor> else \<lceil>q\<rceil>)
           | NaN \<Rightarrow> Inl ValueError
           | _ \<Rightarrow> Inl OverflowError)
      | FBool b \<Rightarrow> Inr (if b then 1 else 0))"

text \<open>
  The year and month filters: when the filter is active and the frame has the column, the
  column is made numeric, the rows without a value are dropped, and the rows whose value
  is \<^verbatim>\<open>int(filtros[k])\<close> are kept. The conversion is evaluated last and may raise.
\<close>

definition filtra_inteiro ::
  "string \<Rightarrow> (row \<Rightarrow> int option) \<Rightarrow> filtros \<Rightarrow> frame \<Rightarrow> exn + frame" where
  "filtra_inteiro k campo f df =
     (if filtro_ativo f k \<and> has_col k df then
        (case map_of f k of
           None \<Rightarrow> Inr df
         | Some v \<Rightarrow>
             (case py_int v of
                Inl e \<Rightarrow> Inl e
              | Inr n \<Rightarrow> Inr (sel (\<lambda>r. campo r = Some n) (sel (\<lambda>r. campo r \<noteq> None) df))))
      else Inr df)"

text \<open>
  The neighbourhood and parameter filters keep the rows whose cell equals the value; a
  cell holds a text or nothing, so it equals no number and no boolean.
\<close>

definition filtra_texto ::
  "string \<Rightarrow> (row \<Rightarrow> string option) \<Rightarrow> filtros \<Rightarrow> frame \<Rightarrow> frame" where
  "filtra_texto k campo f df =
     (if filtro_ativo f k \<and> has_col k df then
        (case map_of f k of
           Some (FStr s) \<Rightarrow> sel (\<lambda>r. campo r = Some s) df
         | _ \<Rightarrow> sel (\<lambda>r. False) df)
      else df)"

text \<open>Adding an expected column that the frame lacks: every row gets an empty cell.\<close>

definition limpa :: "string \<Rightarrow> row \<Rightarrow> row" where
  "limpa c r =
     (if c = ''latitude'' then r\<lparr>latitude := None\<rparr>
      else if c = ''longitude'' then r\<lparr>longitude := None\<rparr>
      else if c = ''bairro'' then r\<lparr>bairro := None\<rparr>
      else if c = ''parametro'' then r\<lparr>parametro := None\<rparr>
      else if c = ''resultado'' then r\<lparr>resultado := None\<rparr>
      else if c = ''resultado_numerico'' then r\<lparr>resultado_numerico := None\<rparr>
      else if c = ''ponto_de_coleta'' then r\<lparr>ponto_de_coleta := None\<rparr>
      else if c = ''data_da_coleta'' then r\<lparr>data_da_coleta := None\<rparr>
      else if c = ''unidade_de_medida'' then r\<lparr>unidade_de_medida := None\<rparr>
      else if c = ''id'' then r\<lparr>ident := None\<rparr>
      else r)"

definition add_col :: "frame \<Rightarrow> string \<Rightarrow> frame" where
  "add_col df c =
     (if c \<in> set (cols df) then df
      else \<lparr>cols = cols df @ [c], rws = map (limpa c) (rws df)\<rparr>)"

definition expected_cols :: "string list" where
  "expected_cols =
     [''latitude'', ''longitude'', ''bairro'', ''parametro'', ''resultado'',
      ''resultado_numerico'', ''ponto_de_coleta'', ''data_da_coleta'', ''unidade_de_medida'',
      ''id'']"

text \<open>The frame returned when loading fails: the twelve columns and no row.\<close>

definition quadro_vazio :: frame where
  "quadro_vazio = \<lparr>cols = expected_cols @ [''ano'', ''mes''], rws = []\<rparr>"

text \<open>
  The body of the \<^verbatim>\<open>try\<close> block of \<^verbatim>\<open>carregar_dados\<close>. What \<^verbatim>\<open>pd.read_csv\<close> returns or
  raises is the parameter \<open>csv\<close>. The latitude and longitude cells hold floats or nothing,
  which \<^verbatim>\<open>pd.to_numeric\<close> leaves as they are.
\<close>

definition carregar_try :: "exn + frame \<Rightarrow> filtros option \<Rightarrow> exn + frame" where
  "carregar_try csv filtros =
     (case csv of
        Inl e \<Rightarrow> Inl e
      | Inr df \<Rightarrow>
          (case (case filtros of
                   None \<Rightarrow> Inr df
                 | Some f \<Rightarrow>
                     if f = [] then Inr df
                     else (case filtra_inteiro ''ano'' ano f df of
                             Inl e \<Rightarrow> Inl e
                           | Inr df \<Rightarrow>
                               (case filtra_inteiro ''mes'' mes f df of
                                  Inl e \<Rightarrow> Inl e
                                | Inr df \<Rightarrow>
                                    Inr (filtra_texto ''parametro'' parametro f
                                           (filtra_texto ''bairro'' bairro f df))))) of
             Inl e \<Rightarrow> Inl e
           | Inr df \<Rightarrow> Inr (foldl add_col df expected_cols)))"

text \<open>Both handlers of \<^verbatim>\<open>carregar_dados\<close> return the empty frame.\<close>

definition carregar_dados :: "exn + frame \<Rightarrow> filtros option \<Rightarrow> frame" where
  "carregar_dados csv filtros =
     (case carregar_try csv filtros of Inl e \<Rightarrow> quadro_vazio | Inr df \<Rightarrow> df)"

section \<open>The evaluator on records of any content\<close>

text \<open>
  \<^verbatim>\<open>verificar_conformidade\<close> reads its record with \<^verbatim>\<open>row.get\<close>, so it accepts any mapping from
  column names to values, not only the rows of the data file. A cell is nothing, a text, a
  whole number of any size, a float or a boolean; a column the record does not have reads
  as nothing.
\<close>

datatype valor = Nulo | Texto string | Inteiro int | Flutuante pyfloat | Booleano bool













section \<open>Frames as objects\<close>

text \<open>
  A data frame is an object: a name refers to it, and an assignment to a column or a call
  with \<^verbatim>\<open>inplace=True\<close> changes the object for every name that refers to it. The store
  holds the frames that exist, a reference is a position in it. \<^verbatim>\<open>df.copy()\<close> and a selection
  \<^verbatim>\<open>df[mask]\<close> bound to a name make a new object; a frame that an expression builds and
  only reads is a value.
\<close>

type_synonym store = "frame list"

definition novo :: "frame \<Rightarrow> store \<Rightarrow> nat \<times> store" where
  "novo f s = (length s, s @ [f])"

text \<open>\<^verbatim>\<open>df.copy()\<close>\<close>

definition copia :: "nat \<Rightarrow> store \<Rightarrow> nat \<times> store" where
  "copia a s = novo (s ! a) s"

text \<open>\<^verbatim>\<open>d['conforme'] = d.apply(verificar_conformidade, axis=1)\<close> on the object at \<open>a\<close>.\<close>

definition atribui_conforme :: "(string \<Rightarrow> exn + pyfloat) \<Rightarrow> nat \<Rightarrow> store \<Rightarrow> store" where
  "atribui_conforme fl a s = s[a := com_conforme fl (s ! a)]"

text \<open>A loop that threads the store through its iterations and collects what they return.\<close>

fun laco :: "('k \<Rightarrow> store \<Rightarrow> 'r \<times> store) \<Rightarrow> 'k list \<Rightarrow> store \<Rightarrow> 'r list \<times> store" where
  "laco f [] s = ([], s)"
| "laco f (k # ks) s =
     (case f k s of (r, s1) \<Rightarrow> (case laco f ks s1 of (rs, s2) \<Rightarrow> (r # rs, s2)))"

text \<open>\<^verbatim>\<open>calcular_estatisticas\<close> on the frame at \<open>a\<close>, lines 124 to 163.\<close>

definition calcular_estatisticas_st ::
  "(string \<Rightarrow> exn + pyfloat) \<Rightarrow> nat \<Rightarrow> store \<Rightarrow> pydict \<times> store" where
  "calcular_estatisticas_st fl a s =
     (case copia a s of
        (df_copy, s) \<Rightarrow>
          (let stats = AList.update ''total_amostras'' (VInt (int (df_len (s ! df_copy)))) [];
               stats = AList.update ''bairros_unicos''
                         (VInt (if has_col ''bairro'' (s ! df_copy)
                                then int (nunique (map bairro (linhas (s ! df_copy)))) else 0))
                         stats
           in (case (if \<not> df_empty (s ! df_copy) then
                       (let s = atribui_conforme fl df_copy s;
                            stats = AList.update ''conformidade_geral''
                                      (pct_conforme (s ! df_copy)) stats;
                            stats = AList.update ''nao_conformidade_geral''
                                      (cem_menos (dict_get stats ''conformidade_geral'' VNone))
                                      stats
                        in (stats, s))
                     else
                       (AList.update ''nao_conformidade_geral'' (VInt 100)
                          (AList.update ''conformidade_geral'' (VInt 0) stats), s)) of
                 (stats, s) \<Rightarrow>
                   (stats_apelidos
                      (foldl (\<lambda>st param.
                           AList.update (''conformidade_'' @ param_key param)
                             (stats_parametro (s ! df_copy) param) st)
                         stats parametros_nomeados), s))))"

text \<open>One iteration of the loop of \<^verbatim>\<open>obter_dados_bairros\<close>, lines 183 to 218.\<close>

definition dados_bairro_st ::
  "(string \<Rightarrow> exn + pyfloat) \<Rightarrow> nat \<Rightarrow> string option \<Rightarrow> store \<Rightarrow> pydict \<times> store" where
  "dados_bairro_st fl df_copy bairro_nome s =
     (case novo (sel (\<lambda>r. eq_cel (bairro r) bairro_nome) (s ! df_copy)) s of
        (df_bairro, s) \<Rightarrow>
          (let total_analises = df_len (s ! df_bairro);
               vazio = df_empty (s ! df_bairro);
               s = (if \<not> vazio then atribui_conforme fl df_bairro s else s);
               percentual_conforme = (if \<not> vazio then pct_conforme (s ! df_bairro) else VInt 0);
               dados = [(''bairro'', val_of bairro_nome),
                        (''total_analises'', VInt (int total_analises)),
                        (''percentual_conforme'', percentual_conforme)]
           in (percentuais_apelidos (percentuais (s ! df_bairro) dados), s)))"

definition obter_dados_bairros_st ::
  "(string \<Rightarrow> exn + pyfloat) \<Rightarrow> nat \<Rightarrow> store \<Rightarrow> pydict list \<times> store" where
  "obter_dados_bairros_st fl a s =
     (if df_empty (s ! a) \<or> \<not> has_col ''bairro'' (s ! a) then ([], s)
      else (case copia a s of
              (df_copy, s) \<Rightarrow>
                laco (dados_bairro_st fl df_copy) (unique (map bairro (linhas (s ! df_copy)))) s))"

text \<open>One iteration of the loop of \<^verbatim>\<open>obter_distribuicao_mes\<close>, lines 240 to 273.\<close>

definition dados_mes_st ::
  "(string \<Rightarrow> exn + pyfloat) \<Rightarrow> nat \<Rightarrow> int \<Rightarrow> store \<Rightarrow> pydict list \<times> store" where
  "dados_mes_st fl df_copy mes_num s =
     (case novo (sel (\<lambda>r. mes r = Some mes_num) (s ! df_copy)) s of
        (df_mes_atual, s) \<Rightarrow>
          (let total_amostras = df_len (s ! df_mes_atual)
           in if total_amostras > 0 then
                (let s = atribui_conforme fl df_mes_atual s;
                     dados = [(''mes'', VInt mes_num),
                              (''nome_mes'', VStr (nomes_meses ! nat (mes_num - 1))),
                              (''total_amostras'', VInt (int total_amostras)),
                              (''percentual_conforme'', pct_conforme (s ! df_mes_atual))]
                 in ([percentuais_apelidos (percentuais (s ! df_mes_atual) dados)], s))
              else ([], s)))"

text \<open>
  \<^verbatim>\<open>obter_distribuicao_mes\<close>: the copy has its month column made numeric and its rows
  without a month dropped in place before the loop.
\<close>

definition obter_distribuicao_mes_st ::
  "(string \<Rightarrow> exn + pyfloat) \<Rightarrow> nat \<Rightarrow> store \<Rightarrow> pydict list \<times> store" where
  "obter_distribuicao_mes_st fl a s =
     (if df_empty (s ! a) \<or> \<not> has_col ''mes'' (s ! a) then ([], s)
      else (case copia a s of
              (df_copy, s) \<Rightarrow>
                (let s = s[df_copy := dropna_mes (s ! df_copy)]
                 in (case laco (dados_mes_st fl df_copy) [1, 2, 3, 4, 5, 6, 7, 8, 9, 10, 11, 12] s
                     of (meses, s) \<Rightarrow> (concat meses, s)))))"

text \<open>One iteration of the loop of \<^verbatim>\<open>obter_distribuicao_ponto_coleta\<close>, lines 290 to 302.\<close>

definition dados_ponto_st ::
  "(string \<Rightarrow> exn + pyfloat) \<Rightarrow> nat \<Rightarrow> string option \<Rightarrow> store \<Rightarrow> pydict list \<times> store" where
  "dados_ponto_st fl df_copy ponto_coleta_nome s =
     (case novo (sel (\<lambda>r. eq_cel (ponto_de_coleta r) ponto_coleta_nome) (s ! df_copy)) s of
        (df_ponto, s) \<Rightarrow>
          (let total_analises = df_len (s ! df_ponto)
           in if total_analises > 0 then
                (let s = atribui_conforme fl df_ponto s
                 in ([[(''ponto_de_coleta'', val_of ponto_coleta_nome),
                       (''total_analises'', VInt (int total_analises)),
                       (''percentual_conforme'', pct_conforme (s ! df_ponto))]], s))
              else ([], s)))"

definition obter_distribuicao_ponto_coleta_st ::
  "(string \<Rightarrow> exn + pyfloat) \<Rightarrow> nat \<Rightarrow> store \<Rightarrow> pydict list \<times> store" where
  "obter_distribuicao_ponto_coleta_st fl a s =
     (if df_empty (s ! a) \<or> \<not> has_col ''ponto_de_coleta'' (s ! a) then ([], s)
      else (case copia a s of
              (df_copy, s) \<Rightarrow>
                (case laco (dados_ponto_st fl df_copy)
                        (unique (map ponto_de_coleta (linhas (s ! df_copy)))) s
                 of (pontos, s) \<Rightarrow> (concat pontos, s))))"

section \<open>Properties of the evaluator\<close>

lemmas str_simps = py_strip_def py_isspace_def py_upper_def upper_char_def py_lower_def
  lower_char_def py_replace_def

lemma normaliza_passo:
  "normaliza n m e =
     (if n = 0 then (m, e)
      else if 2 ^ 53 \<le> m \<and> e < 972 then normaliza (n - 1) (m / 2) (e + 1)
      else if m < 2 ^ 52 \<and> - 1074 < e then normaliza (n - 1) (m * 2) (e - 1)
      else (m, e))"
  by (cases n) simp_all

lemma floor_quociente: "\<lfloor>numeral a / numeral b :: rat\<rfloor> = numeral a div numeral b"
  using floor_divide_of_int_eq[of "numeral a" "numeral b", where ?'a = rat] by simp

lemmas r64_simps = r64_def normaliza_passo arredonda_par_def Let_def floor_quociente

lemmas float_simps = py_float_def float_strip_def float_isspace_def split_sign_def
  floatnumber_def split_at_def mantissa_def digitpart_def digit_of_def exponent_def f64_def
  r64_simps

lemma ausencia_valor:
  "map_of VALORES_REFERENCIA p = Some (Ausencia v) \<Longrightarrow> v = ''AUSENTE''"
  by (simp add: VALORES_REFERENCIA_def split: if_splits)

lemma empty_not_key: "map_of VALORES_REFERENCIA [] = None"
  by (simp add: VALORES_REFERENCIA_def)

text \<open>
  C1 (as the code has it). For a record whose parameter has an absence rule, the verdict is
  true exactly when the result is present and its trimmed, upper-cased text is the sentinel
  of the reference table, which is the string AUSENTE; a missing result gives false.
\<close>

theorem absence_rule:
  assumes "parametro r = Some p" and "map_of VALORES_REFERENCIA p = Some (Ausencia v)"
  shows "verificar_conformidade fl r =
           (case resultado r of None \<Rightarrow> False
            | Some s \<Rightarrow> py_upper (py_strip s) = ''AUSENTE'')"
  using assms ausencia_valor[OF assms(2)]
  by (auto simp: verificar_conformidade_def conformidade_try_def split: option.splits)

theorem absence_rule_witness:
  "parametro (amostra (Some ''Coliformes totais'') (Some '' Ausente '') None)
     = Some ''Coliformes totais''
   \<and> map_of VALORES_REFERENCIA ''Coliformes totais'' = Some (Ausencia ''AUSENTE'')
   \<and> verificar_conformidade py_float
        (amostra (Some ''Coliformes totais'') (Some '' Ausente '') None)"
proof -
  have a: "parametro (amostra (Some ''Coliformes totais'') (Some '' Ausente '') None)
             = Some ''Coliformes totais''"
    by (simp add: amostra_def)
  have b: "map_of VALORES_REFERENCIA ''Coliformes totais'' = Some (Ausencia ''AUSENTE'')"
    by (simp add: VALORES_REFERENCIA_def)
  show ?thesis using a b absence_rule[OF a b, of py_float]
    by (simp add: amostra_def str_simps)
qed

text \<open>
  C1 as stated names the sentinel ABSENT. An Escherichia coli sample whose result is the
  text ABSENT is not compliant, and one whose result is AUSENTE is.
\<close>

theorem absence_sentinel_counterexample:
  "map_of VALORES_REFERENCIA ''Escherichia coli'' = Some (Ausencia ''AUSENTE'')
   \<and> py_upper (py_strip ''ABSENT'') = ''ABSENT''
   \<and> \<not> verificar_conformidade py_float
          (amostra (Some ''Escherichia coli'') (Some ''ABSENT'') None)
   \<and> py_upper (py_strip ''AUSENTE'') \<noteq> ''ABSENT''
   \<and> verificar_conformidade py_float
        (amostra (Some ''Escherichia coli'') (Some ''AUSENTE'') None)"
  by (simp add: verificar_conformidade_def conformidade_try_def amostra_def
      VALORES_REFERENCIA_def str_simps)

text \<open>
  C2. A record whose parameter is missing, empty, or not a key of the reference table is
  never compliant.
\<close>

theorem unknown_parameter:
  assumes "case parametro r of None \<Rightarrow> True
           | Some p \<Rightarrow> p = [] \<or> map_of VALORES_REFERENCIA p = None"
  shows "verificar_conformidade fl r = False"
proof (cases "parametro r")
  case None
  then show ?thesis by (simp add: verificar_conformidade_def conformidade_try_def)
next
  case (Some p)
  with assms have "map_of VALORES_REFERENCIA p = None"
    using empty_not_key by auto
  with Some show ?thesis by (simp add: verificar_conformidade_def conformidade_try_def)
qed

theorem unknown_parameter_witness:
  "(case parametro (amostra (Some ''pH'') (Some ''7,0'') (Some (Fin 7))) of None \<Rightarrow> True
    | Some p \<Rightarrow> p = [] \<or> map_of VALORES_REFERENCIA p = None)
   \<and> verificar_conformidade py_float (amostra (Some ''pH'') (Some ''7,0'') (Some (Fin 7)))
       = False"
proof -
  have h: "case parametro (amostra (Some ''pH'') (Some ''7,0'') (Some (Fin 7))) of
             None \<Rightarrow> True
           | Some p \<Rightarrow> p = [] \<or> map_of VALORES_REFERENCIA p = None"
    by (simp add: amostra_def VALORES_REFERENCIA_def)
  show ?thesis using h unknown_parameter[OF h, of py_float] by simp
qed

text \<open>
  C3. For a record whose parameter has a maximum or a range rule, the verdict is false
  when no numeric value can be resolved, and otherwise it is the test of the resolved value
  against the bound (value at most the maximum) or the bounds (both ends included). The
  numeric result is preferred, and the text 1,5 resolves to 1.5.
\<close>

theorem numeric_rules:
  assumes "parametro r = Some p" and "map_of VALORES_REFERENCIA p = Some ref"
    and "ref = Maximo b \<or> ref = Intervalo lo hi"
  shows "verificar_conformidade fl r =
           (case valor_resolvido fl r of
              None \<Rightarrow> False
            | Some v \<Rightarrow> (case ref of
                          Maximo b \<Rightarrow> pf_le v (Fin b)
                        | Intervalo lo hi \<Rightarrow> pf_le (Fin lo) v \<and> pf_le v (Fin hi)
                        | Ausencia _ \<Rightarrow> False))
         \<and> valor_resolvido py_float (amostra (Some p) (Some ''1,5'') None)
             = Some (Fin (15 / 10))"
proof
  show "verificar_conformidade fl r =
           (case valor_resolvido fl r of
              None \<Rightarrow> False
            | Some v \<Rightarrow> (case ref of
                          Maximo b \<Rightarrow> pf_le v (Fin b)
                        | Intervalo lo hi \<Rightarrow> pf_le (Fin lo) v \<and> pf_le v (Fin hi)
                        | Ausencia _ \<Rightarrow> False))"
  proof -
    from assms(3) have nt: "numeric_test ref v =
        (case ref of Maximo b \<Rightarrow> pf_le v (Fin b)
         | Intervalo lo hi \<Rightarrow> pf_le (Fin lo) v \<and> pf_le v (Fin hi)
         | Ausencia _ \<Rightarrow> False)" for v
      by (simp add: numeric_test_def)
    from assms(3) have tr: "conformidade_try fl r =
        (if isna_num (resultado_numerico r) then
           (case resultado r of
              None \<Rightarrow> Inr False
            | Some s \<Rightarrow>
                (case fl (py_replace (CHR '','') ''.'' s) of
                   Inl e \<Rightarrow> if e = ValueError \<or> e = TypeError then Inr False else Inl e
                 | Inr valor \<Rightarrow> Inr (numeric_test ref valor)))
         else
           (case resultado_numerico r of
              Some valor \<Rightarrow> Inr (numeric_test ref valor)
            | None \<Rightarrow> Inr False))"
      using assms(1,2) by (auto simp: conformidade_try_def)
    show ?thesis
      unfolding verificar_conformidade_def tr valor_resolvido_def nt
      by (auto simp: isna_num_def split: option.splits sum.splits)
  qed
  show "valor_resolvido py_float (amostra (Some p) (Some ''1,5'') None) = Some (Fin (15 / 10))"
    by (simp add: valor_resolvido_def amostra_def isna_num_def str_simps float_simps)
qed

theorem numeric_rules_witness:
  "parametro (amostra (Some ''Cloro residual livre (mg/L)'') (Some ''0,2'') None)
     = Some ''Cloro residual livre (mg/L)''
   \<and> map_of VALORES_REFERENCIA ''Cloro residual livre (mg/L)'' = Some (Intervalo (2 / 10) 5)
   \<and> (Intervalo (2 / 10) 5 = Maximo 0 \<or> Intervalo (2 / 10) 5 = Intervalo (2 / 10) 5)
   \<and> valor_resolvido py_float (amostra (Some ''Cloro residual livre (mg/L)'') (Some ''0,2'') None)
       = Some (Fin (3602879701896397 / 18014398509481984))
   \<and> verificar_conformidade py_float
        (amostra (Some ''Cloro residual livre (mg/L)'') (Some ''0,2'') None)"
proof -
  have a: "parametro (amostra (Some ''Cloro residual livre (mg/L)'') (Some ''0,2'') None)
             = Some ''Cloro residual livre (mg/L)''"
    by (simp add: amostra_def)
  have b: "map_of VALORES_REFERENCIA ''Cloro residual livre (mg/L)''
             = Some (Intervalo (2 / 10) 5)"
    by (simp add: VALORES_REFERENCIA_def)
  have c: "Intervalo (2 / 10) 5 = Maximo 0 \<or> Intervalo (2 / 10) 5 = Intervalo (2 / 10) 5"
    by simp
  have v: "valor_resolvido py_float
             (amostra (Some ''Cloro residual livre (mg/L)'') (Some ''0,2'') None)
           = Some (Fin (3602879701896397 / 18014398509481984))"
    by (simp add: valor_resolvido_def amostra_def isna_num_def str_simps float_simps)
  show ?thesis using a b c v numeric_rules[OF a b c, of py_float]
    by simp
qed

section \<open>Properties of the overall statistics\<close>

lemma map_of_geral:
  "map_of (calcular_estatisticas fl df) ''conformidade_geral'' =
     Some (if df_empty df then VInt 0 else pct_conforme (com_conforme fl df))"
  by (simp add: calcular_estatisticas_def Let_def stats_apelidos_def parametros_nomeados_def
      param_key_def str_simps update_conv' dict_get_def df_empty_def com_conforme_def)

lemma map_of_nao_geral:
  "map_of (calcular_estatisticas fl df) ''nao_conformidade_geral'' =
     Some (if df_empty df then VInt 100 else cem_menos (pct_conforme (com_conforme fl df)))"
  by (simp add: calcular_estatisticas_def Let_def stats_apelidos_def parametros_nomeados_def
      param_key_def str_simps update_conv' dict_get_def df_empty_def com_conforme_def)

lemma conforme_com_conforme:
  "map conforme (linhas (com_conforme fl df)) =
     map (\<lambda>r. Some (verificar_conformidade fl r)) (linhas df)"
  by (simp add: linhas_def com_conforme_def visivel_def)

lemma length_linhas: "length (linhas df) = df_len df"
  by (simp add: linhas_def df_len_def)

lemma count_conforme:
  "length (filter (\<lambda>r. conforme r = Some True) rs) =
     length (filter (\<lambda>c. c = Some True) (map conforme rs))"
  by (induction rs) auto

lemma mean_com_conforme:
  "mean_conforme (com_conforme fl df) =
     r64 (of_nat (conformes fl (linhas df)) / of_nat (df_len df))"
proof -
  have "length (filter (\<lambda>r. conforme r = Some True) (linhas (com_conforme fl df)))
        = conformes fl (linhas df)"
    unfolding count_conforme conforme_com_conforme conformes_def
    by (induction "linhas df") (auto simp: filter_map comp_def)
  moreover have "length (linhas (com_conforme fl df)) = df_len df"
    by (simp add: linhas_def com_conforme_def df_len_def)
  ultimately show ?thesis by (simp add: mean_conforme_def)
qed

lemma sem_colunas: "cols df = [] \<Longrightarrow> conformes fl (linhas df) = 0"
  by (simp add: conformes_def linhas_def visivel_def verificar_conformidade_def
      conformidade_try_def)

lemma r64_cem: "r64 100 = 100" "r64 0 = 0"
  by (simp_all add: r64_simps)

text \<open>
  C5 (as the code has it). The overall compliance percentage is 0 when there is no record.
  Otherwise it is the share of compliant records, rounded to a float, times 100, rounded
  again, which is not always the float nearest to 100 times the count over the total. The
  non-compliance percentage is 100 minus the compliance percentage, rounded; for an empty
  record set the two are 0 and 100.
\<close>

theorem overall_percentages:
  "dict_num (calcular_estatisticas fl df) ''conformidade_geral'' =
     Some (if df_len df = 0 then 0 else percentual fl (linhas df))
   \<and> dict_num (calcular_estatisticas fl df) ''nao_conformidade_geral'' =
     Some (if df_len df = 0 then 100 else r64 (100 - percentual fl (linhas df)))"
proof (cases "df_empty df")
  case True
  then have "df_len df = 0 \<or> conformes fl (linhas df) = 0"
    using sem_colunas by (auto simp: df_empty_def df_len_def)
  with True show ?thesis
    by (auto simp: dict_num_def map_of_geral map_of_nao_geral num_of_def percentual_def r64_cem)
next
  case False
  then have "rws (com_conforme fl df) \<noteq> []" "df_len df \<noteq> 0"
    by (auto simp: df_empty_def com_conforme_def df_len_def)
  with False show ?thesis
    by (simp add: dict_num_def map_of_geral map_of_nao_geral num_of_def pct_conforme_def
        cem_menos_def mean_com_conforme percentual_def length_linhas)
qed

lemma visivel_csv: "conforme r = None \<Longrightarrow> visivel colunas_csv r = r"
  by (cases r) (simp add: visivel_def colunas_csv_def)

lemma linhas_vinte: "linhas quadro_vinte = replicate 11 amostra_limpa @ replicate 9 amostra_turva"
  by (simp add: linhas_def quadro_vinte_def visivel_csv amostra_limpa_def amostra_turva_def
      amostra_def)

lemma veredictos_vinte:
  "verificar_conformidade py_float amostra_limpa"
  "\<not> verificar_conformidade py_float amostra_turva"
  by (simp_all add: verificar_conformidade_def conformidade_try_def amostra_limpa_def
      amostra_turva_def amostra_def VALORES_REFERENCIA_def isna_num_def numeric_test_def)

lemma conformes_vinte: "conformes py_float (linhas quadro_vinte) = 11"
  by (simp add: linhas_vinte conformes_def veredictos_vinte)

lemma percentual_vinte:
  "percentual py_float (linhas quadro_vinte) = 7740561859543041 / 140737488355328"
  unfolding percentual_def conformes_vinte by (simp add: linhas_vinte r64_simps)

lemma cem_menos_vinte:
  "r64 (100 - 7740561859543041 / 140737488355328) = 6333186975989759 / 140737488355328"
  by (simp add: r64_simps)

text \<open>
  C5 as stated gives 100 times the count over the total. With eleven compliant samples out
  of twenty that is 55, a number a float holds exactly; the program returns the float next
  above it, 55.00000000000001, and 44.99999999999999 for the non-compliance percentage.
\<close>

theorem overall_percentage_counterexample:
  "df_len quadro_vinte = 20
   \<and> conformes py_float (linhas quadro_vinte) = 11
   \<and> dict_num (calcular_estatisticas py_float quadro_vinte) ''conformidade_geral''
       = Some (7740561859543041 / 140737488355328)
   \<and> (7740561859543041 / 140737488355328 :: rat) \<noteq> 100 * 11 / 20
   \<and> dict_num (calcular_estatisticas py_float quadro_vinte) ''nao_conformidade_geral''
       = Some (6333186975989759 / 140737488355328)"
proof -
  have v: "\<not> df_empty quadro_vinte" "rws (com_conforme py_float quadro_vinte) \<noteq> []"
    by (simp_all add: df_empty_def quadro_vinte_def colunas_csv_def com_conforme_def)
  have n: "df_len quadro_vinte = 20"
    by (simp add: df_len_def quadro_vinte_def)
  have p: "pct_conforme (com_conforme py_float quadro_vinte)
           = VNum (7740561859543041 / 140737488355328)"
    using v(2) percentual_vinte
    by (simp add: pct_conforme_def mean_com_conforme percentual_def length_linhas)
  show ?thesis
    using v(1) n conformes_vinte cem_menos_vinte
    by (simp add: dict_num_def map_of_geral map_of_nao_geral num_of_def p cem_menos_def)
qed

section \<open>Properties of the grouping aggregators\<close>

lemma param_keys:
  "param_key ''Escherichia coli'' = ''escherichia_coli''"
  "param_key ''Coliformes totais'' = ''coliformes_totais''"
  "param_key ''Turbidez (uT)'' = ''turbidez_ut''"
  "param_key ''Cloro residual livre (mg/L)'' = ''cloro_residual_livre_mg_l''"
  "param_key ''Fluoreto (mg/L)'' = ''fluoreto_mg_l''"
  by (simp_all add: param_key_def str_simps)

lemma percentuais_unfold:
  "percentuais g d =
     AList.update ''percentual_fluoreto_mg_l'' (pct_parametro g ''Fluoreto (mg/L)'')
       (AList.update ''percentual_cloro_residual_livre_mg_l''
          (pct_parametro g ''Cloro residual livre (mg/L)'')
          (AList.update ''percentual_turbidez_ut'' (pct_parametro g ''Turbidez (uT)'')
             (AList.update ''percentual_coliformes_totais''
                (pct_parametro g ''Coliformes totais'')
                (AList.update ''percentual_escherichia_coli''
                   (pct_parametro g ''Escherichia coli'') d))))"
  by (simp add: percentuais_def parametros_nomeados_def param_keys)

lemma percentuais_cauda3:
  "percentuais_apelidos
     (percentuais g [(''bairro'', a), (''total_analises'', b), (''percentual_conforme'', c)]) =
   (''bairro'', a) # (''total_analises'', b) # (''percentual_conforme'', c)
     # cauda_percentuais g"
  unfolding percentuais_unfold cauda_percentuais_def
  by (simp add: percentuais_apelidos_def dict_get_def Let_def)

lemma percentuais_cauda4:
  "percentuais_apelidos
     (percentuais g [(''mes'', a), (''nome_mes'', n), (''total_amostras'', b),
                     (''percentual_conforme'', c)]) =
   (''mes'', a) # (''nome_mes'', n) # (''total_amostras'', b) # (''percentual_conforme'', c)
     # cauda_percentuais g"
  unfolding percentuais_unfold cauda_percentuais_def
  by (simp add: percentuais_apelidos_def dict_get_def Let_def)

lemma map_of_cauda:
  "map_of (cauda_percentuais g) ''percentual_escherichia_coli'' =
     Some (pct_parametro g ''Escherichia coli'')"
  "map_of (cauda_percentuais g) ''percentual_coliformes_totais'' =
     Some (pct_parametro g ''Coliformes totais'')"
  "map_of (cauda_percentuais g) ''percentual_turbidez_ut'' =
     Some (pct_parametro g ''Turbidez (uT)'')"
  "map_of (cauda_percentuais g) ''percentual_cloro_residual_livre_mg_l'' =
     Some (pct_parametro g ''Cloro residual livre (mg/L)'')"
  "map_of (cauda_percentuais g) ''percentual_fluoreto_mg_l'' =
     Some (pct_parametro g ''Fluoreto (mg/L)'')"
  by (simp_all add: cauda_percentuais_def)

lemma casos_parametros:
  assumes "p \<in> set parametros_nomeados"
    and "P ''Escherichia coli''" and "P ''Coliformes totais''" and "P ''Turbidez (uT)''"
    and "P ''Cloro residual livre (mg/L)''" and "P ''Fluoreto (mg/L)''"
  shows "P p"
proof -
  from assms(1) have "p = ''Escherichia coli'' \<or> p = ''Coliformes totais''
      \<or> p = ''Turbidez (uT)'' \<or> p = ''Cloro residual livre (mg/L)'' \<or> p = ''Fluoreto (mg/L)''"
    unfolding parametros_nomeados_def by simp
  with assms(2-6) show ?thesis by blast
qed

lemma chaves3:
  assumes "p \<in> set parametros_nomeados"
  shows "map_of ((''bairro'', a) # (''total_analises'', b) # (''percentual_conforme'', c)
                   # cauda_percentuais g) (''percentual_'' @ param_key p) =
           Some (pct_parametro g p)"
  by (rule casos_parametros[OF assms]) (simp_all add: param_keys map_of_cauda)

lemma chaves4:
  assumes "p \<in> set parametros_nomeados"
  shows "map_of ((''mes'', a) # (''nome_mes'', n) # (''total_amostras'', b)
                   # (''percentual_conforme'', c) # cauda_percentuais g)
           (''percentual_'' @ param_key p) = Some (pct_parametro g p)"
  by (rule casos_parametros[OF assms]) (simp_all add: param_keys map_of_cauda)

lemma linhas_sel: "linhas (sel P df) = filter P (linhas df)"
  by (simp add: linhas_def sel_def filter_map comp_def)

lemma cols_sel: "cols (sel P df) = cols df"
  by (simp add: sel_def)

lemma df_len_sel: "df_len (sel P df) = length (filter P (linhas df))"
  unfolding linhas_sel[symmetric] by (simp add: linhas_def df_len_def)

lemma linhas_com_conforme:
  "linhas (com_conforme fl df) =
     map (\<lambda>r. r\<lparr>conforme := Some (verificar_conformidade fl r)\<rparr>) (linhas df)"
proof (cases "''conforme'' \<in> set (cols df)")
  case True
  then show ?thesis
    by (simp add: linhas_def com_conforme_def visivel_def split del: if_split cong: if_cong)
next
  case False
  then show ?thesis
    by (simp add: linhas_def com_conforme_def visivel_def split del: if_split cong: if_cong)
qed

lemma linhas_Nil: "linhas df = [] \<longleftrightarrow> rws df = []"
  by (simp add: linhas_def)

lemma has_col_com_conforme:
  "c \<noteq> ''conforme'' \<Longrightarrow> has_col c (com_conforme fl df) = has_col c df"
  by (simp add: has_col_def com_conforme_def)

lemma campos_visivel:
  "parametro (visivel cs r) = (if ''parametro'' \<in> set cs then parametro r else None)"
  "bairro (visivel cs r) = (if ''bairro'' \<in> set cs then bairro r else None)"
  "ponto_de_coleta (visivel cs r) =
     (if ''ponto_de_coleta'' \<in> set cs then ponto_de_coleta r else None)"
  "mes (visivel cs r) = (if ''mes'' \<in> set cs then mes r else None)"
  "ano (visivel cs r) = (if ''ano'' \<in> set cs then ano r else None)"
  "conforme (visivel cs r) = (if ''conforme'' \<in> set cs then conforme r else None)"
  by (simp_all add: visivel_def split del: if_split)

lemma sem_coluna_parametro:
  "\<not> has_col ''parametro'' df \<Longrightarrow> filter (\<lambda>r. parametro r = Some p) (linhas df) = []"
  by (simp add: has_col_def linhas_def campos_visivel filter_empty_conv)

lemma conformes_marcados:
  "length (filter (\<lambda>r. conforme r = Some True)
     (map (\<lambda>r. r\<lparr>conforme := Some (verificar_conformidade fl r)\<rparr>) rs)) = conformes fl rs"
  by (induction rs) (simp_all add: conformes_def)

lemma filter_parametro_marcados:
  "filter (\<lambda>r. parametro r = Some p)
     (map (\<lambda>r. r\<lparr>conforme := Some (verificar_conformidade fl r)\<rparr>) rs) =
   map (\<lambda>r. r\<lparr>conforme := Some (verificar_conformidade fl r)\<rparr>)
     (filter (\<lambda>r. parametro r = Some p) rs)"
  by (induction rs) simp_all

lemma pct_parametro_com_conforme:
  "pct_parametro (com_conforme fl g) p =
     pct_ou_nulo fl (filter (\<lambda>r. parametro r = Some p) (linhas g))"
proof (cases "has_col ''parametro'' g")
  case False
  then show ?thesis
    by (simp add: pct_parametro_def has_col_com_conforme sem_coluna_parametro pct_ou_nulo_def)
next
  case True
  then have c: "cols (sel (\<lambda>r. parametro r = Some p) (com_conforme fl g)) \<noteq> []"
    by (auto simp: cols_sel com_conforme_def has_col_def)
  have e: "df_empty (sel (\<lambda>r. parametro r = Some p) (com_conforme fl g)) \<longleftrightarrow>
             filter (\<lambda>r. parametro r = Some p) (linhas g) = []"
    using c unfolding df_empty_def linhas_Nil[symmetric] linhas_sel linhas_com_conforme
      filter_parametro_marcados by simp
  have m: "mean_conforme (sel (\<lambda>r. parametro r = Some p) (com_conforme fl g)) =
             r64 (of_nat (conformes fl (filter (\<lambda>r. parametro r = Some p) (linhas g)))
                    / of_nat (length (filter (\<lambda>r. parametro r = Some p) (linhas g))))"
    unfolding mean_conforme_def linhas_sel linhas_com_conforme filter_parametro_marcados
      conformes_marcados by simp
  show ?thesis
    using True
    by (simp add: pct_parametro_def has_col_com_conforme e m Let_def pct_ou_nulo_def
        percentual_def)
qed

lemma pct_parametro_vazio:
  "rws g = [] \<Longrightarrow>
   pct_parametro g p = pct_ou_nulo fl (filter (\<lambda>r. parametro r = Some p) (linhas g))"
  by (simp add: pct_parametro_def Let_def df_empty_def sel_def linhas_def pct_ou_nulo_def)

lemma pct_grupo:
  assumes "cols df \<noteq> []"
  shows "pct_parametro
           (if \<not> df_empty (sel P df) then com_conforme fl (sel P df) else sel P df) p
         = pct_ou_nulo fl (filter (\<lambda>r. P r \<and> parametro r = Some p) (linhas df))"
proof (cases "df_empty (sel P df)")
  case True
  with assms have "rws (sel P df) = []" by (simp add: df_empty_def cols_sel)
  from pct_parametro_vazio[OF this, of p fl] True show ?thesis
    by (simp add: linhas_sel)
next
  case False
  then show ?thesis
    by (simp add: pct_parametro_com_conforme linhas_sel)
qed

lemma dados_bairro_forma:
  "dados_bairro fl df k =
     (''bairro'', val_of k)
     # (''total_analises'', VInt (int (df_len (sel (\<lambda>r. eq_cel (bairro r) k) df))))
     # (''percentual_conforme'',
          if \<not> df_empty (sel (\<lambda>r. eq_cel (bairro r) k) df)
          then pct_conforme (com_conforme fl (sel (\<lambda>r. eq_cel (bairro r) k) df))
          else VInt 0)
     # cauda_percentuais
         (if \<not> df_empty (sel (\<lambda>r. eq_cel (bairro r) k) df)
          then com_conforme fl (sel (\<lambda>r. eq_cel (bairro r) k) df)
          else sel (\<lambda>r. eq_cel (bairro r) k) df)"
  unfolding dados_bairro_def Let_def percentuais_cauda3
  by (simp split del: if_split cong: if_cong)

lemma dados_bairro_parametro:
  assumes "cols df \<noteq> []" and "p \<in> set parametros_nomeados"
  shows "map_of (dados_bairro fl df k) (''percentual_'' @ param_key p) =
           Some (pct_ou_nulo fl
                   (filter (\<lambda>r. eq_cel (bairro r) k \<and> parametro r = Some p) (linhas df)))"
  unfolding dados_bairro_forma chaves3[OF assms(2)] pct_grupo[OF assms(1)] by (rule refl)

lemma dados_bairro_chave: "map_of (dados_bairro fl df k) ''bairro'' = Some (val_of k)"
  unfolding dados_bairro_forma by simp

lemma dados_mes_forma:
  "dados_mes fl df m =
     (if df_len (sel (\<lambda>r. mes r = Some m) df) > 0 then
        [(''mes'', VInt m) # (''nome_mes'', VStr (nomes_meses ! nat (m - 1)))
         # (''total_amostras'', VInt (int (df_len (sel (\<lambda>r. mes r = Some m) df))))
         # (''percentual_conforme'',
              pct_conforme (com_conforme fl (sel (\<lambda>r. mes r = Some m) df)))
         # cauda_percentuais (com_conforme fl (sel (\<lambda>r. mes r = Some m) df))]
      else [])"
  unfolding dados_mes_def Let_def percentuais_cauda4
  by (simp split del: if_split cong: if_cong)

lemma dados_mes_membro:
  assumes "d \<in> set (dados_mes fl df m)" and "p \<in> set parametros_nomeados"
  shows "map_of d ''mes'' = Some (VInt m)"
    and "map_of d (''percentual_'' @ param_key p) =
           Some (pct_ou_nulo fl
                   (filter (\<lambda>r. mes r = Some m \<and> parametro r = Some p) (linhas df)))"
proof -
  from assms(1) have d: "d =
         (''mes'', VInt m) # (''nome_mes'', VStr (nomes_meses ! nat (m - 1)))
         # (''total_amostras'', VInt (int (df_len (sel (\<lambda>r. mes r = Some m) df))))
         # (''percentual_conforme'',
              pct_conforme (com_conforme fl (sel (\<lambda>r. mes r = Some m) df)))
         # cauda_percentuais (com_conforme fl (sel (\<lambda>r. mes r = Some m) df))"
    unfolding dados_mes_forma by (simp split: if_splits)
  show "map_of d ''mes'' = Some (VInt m)"
    unfolding d by simp
  show "map_of d (''percentual_'' @ param_key p) =
           Some (pct_ou_nulo fl
                   (filter (\<lambda>r. mes r = Some m \<and> parametro r = Some p) (linhas df)))"
    unfolding d chaves4[OF assms(2)] pct_parametro_com_conforme linhas_sel filter_filter
    by (rule refl)
qed

lemma linhas_dropna_mes:
  "filter (\<lambda>r. mes r = Some m \<and> P r) (linhas (dropna_mes df)) =
   filter (\<lambda>r. mes r = Some m \<and> P r) (linhas df)"
  unfolding dropna_mes_def linhas_sel filter_filter
  by (rule filter_cong) auto

lemma dados_ponto_chaves:
  "d \<in> set (dados_ponto fl df k) \<Longrightarrow>
   map fst d = [''ponto_de_coleta'', ''total_analises'', ''percentual_conforme'']"
  by (simp add: dados_ponto_def Let_def split: if_splits)

lemma chave_texto_bairro: "chave_texto (dados_bairro fl df k) ''bairro'' = k"
  unfolding chave_texto_def dados_bairro_chave by (cases k) (simp_all add: val_of_def)

lemma membro_bairros:
  assumes "d \<in> set (obter_dados_bairros fl df)"
  obtains k where "d = dados_bairro fl df k" and "cols df \<noteq> []"
proof -
  from assms have ne: "\<not> df_empty df"
    and "d \<in> dados_bairro fl df ` set (unique (map bairro (linhas df)))"
    by (simp_all add: obter_dados_bairros_def Let_def split: if_splits)
  then obtain k where "d = dados_bairro fl df k" by blast
  moreover from ne have "cols df \<noteq> []" by (simp add: df_empty_def)
  ultimately show thesis by (rule that)
qed

lemma membro_meses:
  assumes "d \<in> set (obter_distribuicao_mes fl df)"
  obtains m where "d \<in> set (dados_mes fl (dropna_mes df) m)" and "1 \<le> m" and "m \<le> 12"
proof -
  from assms have "d \<in> set (concat (map (dados_mes fl (dropna_mes df))
                      [1, 2, 3, 4, 5, 6, 7, 8, 9, 10, 11, 12]))"
    by (simp add: obter_distribuicao_mes_def Let_def split: if_splits)
  then obtain m where "m \<in> set [1, 2, 3, 4, 5, 6, 7, 8, 9, 10, 11, 12::int]"
    and d: "d \<in> set (dados_mes fl (dropna_mes df) m)"
    unfolding set_concat set_map by blast
  then have "1 \<le> m \<and> m \<le> 12" by auto
  with d show thesis using that by blast
qed

lemma membro_pontos:
  assumes "d \<in> set (obter_distribuicao_ponto_coleta fl df)"
  obtains k where "d \<in> set (dados_ponto fl df k)"
proof -
  from assms have "d \<in> set (concat (map (dados_ponto fl df)
                      (unique (map ponto_de_coleta (linhas df)))))"
    by (simp add: obter_distribuicao_ponto_coleta_def Let_def split: if_splits)
  then show thesis unfolding set_concat set_map using that by blast
qed

text \<open>
  C6 (as the code has it). In every group that the neighbourhood aggregator and the month
  aggregator emit, each of the five named parameters has an entry: the compliance
  percentage over the samples of the group that have this parameter, and nothing (not 0)
  when the group has no such sample. A group of the collection-point aggregator has its
  name, its sample count and its overall percentage, and no entry for a parameter.
\<close>

theorem group_parameter_percentages:
  "(\<forall>d\<in>set (obter_dados_bairros fl df). \<forall>p\<in>set parametros_nomeados.
      map_of d (''percentual_'' @ param_key p) =
        Some (pct_ou_nulo fl
                (filter (\<lambda>r. eq_cel (bairro r) (chave_texto d ''bairro'') \<and> parametro r = Some p)
                   (linhas df))))
   \<and> (\<forall>d\<in>set (obter_distribuicao_mes fl df). \<forall>p\<in>set parametros_nomeados.
      map_of d (''percentual_'' @ param_key p) =
        Some (pct_ou_nulo fl
                (filter (\<lambda>r. eq_cel (mes r) (chave_inteira d ''mes'') \<and> parametro r = Some p)
                   (linhas df))))
   \<and> (\<forall>d\<in>set (obter_distribuicao_ponto_coleta fl df).
        map fst d = [''ponto_de_coleta'', ''total_analises'', ''percentual_conforme''])"
proof (intro conjI ballI)
  fix d p
  assume d: "d \<in> set (obter_dados_bairros fl df)" and p: "p \<in> set parametros_nomeados"
  from d obtain k where k: "d = dados_bairro fl df k" and c: "cols df \<noteq> []"
    by (rule membro_bairros)
  show "map_of d (''percentual_'' @ param_key p) =
        Some (pct_ou_nulo fl
                (filter (\<lambda>r. eq_cel (bairro r) (chave_texto d ''bairro'') \<and> parametro r = Some p)
                   (linhas df)))"
    unfolding k chave_texto_bairro by (rule dados_bairro_parametro[OF c p])
next
  fix d p
  assume d: "d \<in> set (obter_distribuicao_mes fl df)" and p: "p \<in> set parametros_nomeados"
  from d obtain m where m: "d \<in> set (dados_mes fl (dropna_mes df) m)"
    by (rule membro_meses)
  have c: "chave_inteira d ''mes'' = Some m"
    unfolding chave_inteira_def dados_mes_membro(1)[OF m p] by simp
  have e: "eq_cel (mes r) (Some m) = (mes r = Some m)" for r
    by (auto simp: eq_cel_def)
  show "map_of d (''percentual_'' @ param_key p) =
        Some (pct_ou_nulo fl
                (filter (\<lambda>r. eq_cel (mes r) (chave_inteira d ''mes'') \<and> parametro r = Some p)
                   (linhas df)))"
    unfolding c e dados_mes_membro(2)[OF m p] linhas_dropna_mes by (rule refl)
next
  fix d
  assume "d \<in> set (obter_distribuicao_ponto_coleta fl df)"
  then obtain k where "d \<in> set (dados_ponto fl df k)" by (rule membro_pontos)
  then show "map fst d = [''ponto_de_coleta'', ''total_analises'', ''percentual_conforme'']"
    by (rule dados_ponto_chaves)
qed

section \<open>Properties of the grouping keys\<close>

lemma set_unique: "set (unique xs) = set xs"
  by (induction xs rule: unique.induct) auto

lemma distinct_unique: "distinct (unique xs)"
  by (induction xs rule: unique.induct) (auto simp: set_unique)

lemma primeira_pos_Cons:
  "primeira_pos a (x # xs) = (if a = x then 0 else Suc (primeira_pos a xs))"
  by (auto simp: primeira_pos_def)

lemma primeira_pos_filter:
  assumes "a \<noteq> x" and "b \<noteq> x"
  shows "(primeira_pos a (filter (\<lambda>y. y \<noteq> x) xs) < primeira_pos b (filter (\<lambda>y. y \<noteq> x) xs))
         = (primeira_pos a xs < primeira_pos b xs)"
  using assms by (induction xs) (auto simp: primeira_pos_Cons)

lemma primeira_pos_unique:
  "sorted_wrt (\<lambda>a b. primeira_pos a xs < primeira_pos b xs) (unique xs)"
proof (induction xs rule: unique.induct)
  case 1
  show ?case by simp
next
  case (2 x xs)
  let ?ys = "filter (\<lambda>y. y \<noteq> x) xs"
  have a: "\<forall>b\<in>set (unique ?ys). primeira_pos x (x # xs) < primeira_pos b (x # xs)"
    by (auto simp: set_unique primeira_pos_Cons)
  have "sorted_wrt (\<lambda>a b. primeira_pos a (x # xs) < primeira_pos b (x # xs)) (unique ?ys)"
  proof (rule sorted_wrt_mono_rel[OF _ 2])
    fix a b
    assume "a \<in> set (unique ?ys)" and "b \<in> set (unique ?ys)"
      and "primeira_pos a ?ys < primeira_pos b ?ys"
    then have "a \<noteq> x" "b \<noteq> x" "primeira_pos a xs < primeira_pos b xs"
      using primeira_pos_filter[of a x b xs] by (auto simp: set_unique)
    then show "primeira_pos a (x # xs) < primeira_pos b (x # xs)"
      by (simp add: primeira_pos_Cons)
  qed
  with a show ?case by simp
qed

lemma length_filter_disjuntos:
  assumes "\<And>x. x \<in> set xs \<Longrightarrow> \<not> (P x \<and> Q x)"
  shows "length (filter P xs) + length (filter Q xs) = length (filter (\<lambda>x. P x \<or> Q x) xs)"
  using assms by (induction xs) auto

lemma soma_por_chave:
  "sum_list (map (\<lambda>k. length (filter (\<lambda>x. eq_cel x k) xs)) (unique xs))
     = length (filter (\<lambda>x. x \<noteq> None) xs)"
proof (induction xs rule: unique.induct)
  case 1
  show ?case by simp
next
  case (2 x xs)
  let ?ys = "filter (\<lambda>y. y \<noteq> x) xs"
  have r: "map (\<lambda>k. length (filter (\<lambda>y. eq_cel y k) (x # xs))) (unique ?ys)
           = map (\<lambda>k. length (filter (\<lambda>y. eq_cel y k) ?ys)) (unique ?ys)"
  proof (rule map_cong[OF refl])
    fix k assume "k \<in> set (unique ?ys)"
    then have "k \<noteq> x" by (simp add: set_unique)
    then have "filter (\<lambda>y. eq_cel y k) xs = filter (\<lambda>y. eq_cel y k) ?ys"
      unfolding filter_filter by (intro filter_cong refl) (auto simp: eq_cel_def)
    with \<open>k \<noteq> x\<close> show "length (filter (\<lambda>y. eq_cel y k) (x # xs))
                          = length (filter (\<lambda>y. eq_cel y k) ?ys)"
      by (auto simp: eq_cel_def)
  qed
  have s: "length (filter (\<lambda>y. eq_cel y x) xs) + length (filter (\<lambda>y. y \<noteq> None) ?ys)
           = length (filter (\<lambda>y. y \<noteq> None) xs)"
  proof -
    have "length (filter (\<lambda>y. eq_cel y x) xs) + length (filter (\<lambda>y. y \<noteq> None \<and> y \<noteq> x) xs)
          = length (filter (\<lambda>y. eq_cel y x \<or> (y \<noteq> None \<and> y \<noteq> x)) xs)"
      by (rule length_filter_disjuntos) (auto simp: eq_cel_def)
    also have "filter (\<lambda>y. eq_cel y x \<or> (y \<noteq> None \<and> y \<noteq> x)) xs = filter (\<lambda>y. y \<noteq> None) xs"
      by (intro filter_cong refl) (auto simp: eq_cel_def)
    finally show ?thesis by (simp add: conj_commute)
  qed
  have "sum_list (map (\<lambda>k. length (filter (\<lambda>y. eq_cel y k) (x # xs))) (unique (x # xs)))
        = length (filter (\<lambda>y. eq_cel y x) (x # xs))
          + sum_list (map (\<lambda>k. length (filter (\<lambda>y. eq_cel y k) ?ys)) (unique ?ys))"
    by (simp only: unique.simps list.map sum_list.Cons r)
  also have "\<dots> = length (filter (\<lambda>y. eq_cel y x) (x # xs))
                  + length (filter (\<lambda>y. y \<noteq> None) ?ys)"
    by (simp only: 2)
  also have "\<dots> = length (filter (\<lambda>y. y \<noteq> None) (x # xs))"
    using s by (auto simp: eq_cel_def)
  finally show ?case .
qed

lemma soma_por_valor:
  assumes "distinct ms"
  shows "sum_list (map (\<lambda>m. length (filter (\<lambda>r. f r = Some m) rs)) ms)
         = length (filter (\<lambda>r. \<exists>m\<in>set ms. f r = Some m) rs)"
  using assms
proof (induction ms)
  case Nil
  show ?case by simp
next
  case (Cons m ms)
  then have "sum_list (map (\<lambda>m. length (filter (\<lambda>r. f r = Some m) rs)) (m # ms))
        = length (filter (\<lambda>r. f r = Some m) rs)
          + length (filter (\<lambda>r. \<exists>m\<in>set ms. f r = Some m) rs)"
    by simp
  also have "\<dots> = length (filter (\<lambda>r. f r = Some m \<or> (\<exists>m\<in>set ms. f r = Some m)) rs)"
    using Cons.prems by (intro length_filter_disjuntos) auto
  finally show ?case by simp
qed

lemma soma_int: "sum_list (map (\<lambda>k. int (g k)) ks) = int (sum_list (map g ks))"
  by (induction ks) simp_all

lemma length_filter_map: "length (filter P (map f xs)) = length (filter (\<lambda>x. P (f x)) xs)"
  by (induction xs) simp_all

lemma sem_bairro:
  assumes "df_empty df \<or> \<not> has_col ''bairro'' df" and "r \<in> set (linhas df)"
  shows "bairro r = None"
proof -
  from assms(2) have "rws df \<noteq> []" by (auto simp: linhas_def)
  with assms(1) have "''bairro'' \<notin> set (cols df)"
    by (auto simp: df_empty_def has_col_def)
  with assms(2) show ?thesis by (auto simp: linhas_def campos_visivel)
qed

lemma sem_ponto:
  assumes "df_empty df \<or> \<not> has_col ''ponto_de_coleta'' df" and "r \<in> set (linhas df)"
  shows "ponto_de_coleta r = None"
proof -
  from assms(2) have "rws df \<noteq> []" by (auto simp: linhas_def)
  with assms(1) have "''ponto_de_coleta'' \<notin> set (cols df)"
    by (auto simp: df_empty_def has_col_def)
  with assms(2) show ?thesis by (auto simp: linhas_def campos_visivel)
qed

lemma sem_mes:
  assumes "df_empty df \<or> \<not> has_col ''mes'' df" and "r \<in> set (linhas df)"
  shows "mes r = None"
proof -
  from assms(2) have "rws df \<noteq> []" by (auto simp: linhas_def)
  with assms(1) have "''mes'' \<notin> set (cols df)"
    by (auto simp: df_empty_def has_col_def)
  with assms(2) show ?thesis by (auto simp: linhas_def campos_visivel)
qed

subsection \<open>Neighbourhoods\<close>

lemma contagem_bairro:
  "contagem (dados_bairro fl df k) ''total_analises'' =
     int (length (filter (\<lambda>r. eq_cel (bairro r) k) (linhas df)))"
  unfolding dados_bairro_forma contagem_def by (simp add: df_len_sel)

lemma chaves_bairros:
  "map (\<lambda>d. chave_texto d ''bairro'') (obter_dados_bairros fl df) =
     (if df_empty df \<or> \<not> has_col ''bairro'' df then []
      else unique (map bairro (linhas df)))"
  by (simp add: obter_dados_bairros_def comp_def chave_texto_bairro)

lemma soma_bairros:
  "sum_list (map (\<lambda>d. contagem d ''total_analises'') (obter_dados_bairros fl df)) =
     int (length (filter (\<lambda>r. bairro r \<noteq> None) (linhas df)))"
proof (cases "df_empty df \<or> \<not> has_col ''bairro'' df")
  case True
  have "bairro r = None" if "r \<in> set (linhas df)" for r
    using sem_bairro[OF True that] .
  then have "filter (\<lambda>r. bairro r \<noteq> None) (linhas df) = []"
    by (simp add: filter_empty_conv)
  with True show ?thesis by (simp add: obter_dados_bairros_def)
next
  case False
  have "sum_list (map (\<lambda>k. length (filter (\<lambda>r. eq_cel (bairro r) k) (linhas df)))
          (unique (map bairro (linhas df))))
        = length (filter (\<lambda>r. bairro r \<noteq> None) (linhas df))"
    using soma_por_chave[of "map bairro (linhas df)", unfolded length_filter_map] .
  with False show ?thesis
    by (simp add: obter_dados_bairros_def comp_def contagem_bairro soma_int)
qed

subsection \<open>Collection points\<close>

lemma dados_ponto_forma:
  "dados_ponto fl df k =
     (if filter (\<lambda>r. eq_cel (ponto_de_coleta r) k) (linhas df) = [] then []
      else [[(''ponto_de_coleta'', val_of k),
             (''total_analises'',
                VInt (int (length (filter (\<lambda>r. eq_cel (ponto_de_coleta r) k) (linhas df))))),
             (''percentual_conforme'',
                pct_conforme (com_conforme fl (sel (\<lambda>r. eq_cel (ponto_de_coleta r) k) df)))]])"
  by (simp add: dados_ponto_def Let_def df_len_sel)

lemma chave_ponto:
  "map (\<lambda>d. chave_texto d ''ponto_de_coleta'') (dados_ponto fl df k) =
     (if k \<noteq> None \<and> k \<in> set (map ponto_de_coleta (linhas df)) then [k] else [])"
proof -
  have "(filter (\<lambda>r. eq_cel (ponto_de_coleta r) k) (linhas df) = []) =
        (\<not> (k \<noteq> None \<and> k \<in> set (map ponto_de_coleta (linhas df))))"
    by (auto simp: filter_empty_conv eq_cel_def)
  then show ?thesis
    unfolding dados_ponto_forma by (cases k) (simp_all add: chave_texto_def val_of_def)
qed

lemma contagem_ponto:
  "sum_list (map (\<lambda>d. contagem d ''total_analises'') (dados_ponto fl df k)) =
     int (length (filter (\<lambda>r. eq_cel (ponto_de_coleta r) k) (linhas df)))"
  unfolding dados_ponto_forma by (simp add: contagem_def)

lemma chaves_concat:
  assumes "set ks \<subseteq> set xs"
  shows "concat (map (\<lambda>k. if k \<noteq> None \<and> k \<in> set xs then [k] else []) ks)
         = filter (\<lambda>k. k \<noteq> None) ks"
  using assms by (induction ks) auto

lemma chaves_pontos:
  "map (\<lambda>d. chave_texto d ''ponto_de_coleta'') (obter_distribuicao_ponto_coleta fl df) =
     filter (\<lambda>k. k \<noteq> None) (unique (map ponto_de_coleta (linhas df)))"
proof (cases "df_empty df \<or> \<not> has_col ''ponto_de_coleta'' df")
  case True
  have "ponto_de_coleta r = None" if "r \<in> set (linhas df)" for r
    using sem_ponto[OF True that] .
  then have "filter (\<lambda>k. k \<noteq> None) (unique (map ponto_de_coleta (linhas df))) = []"
    by (auto simp: filter_empty_conv set_unique)
  with True show ?thesis by (simp add: obter_distribuicao_ponto_coleta_def)
next
  case False
  have "set (unique (map ponto_de_coleta (linhas df))) \<subseteq> set (map ponto_de_coleta (linhas df))"
    by (simp add: set_unique)
  from chaves_concat[OF this] False show ?thesis
    by (simp add: obter_distribuicao_ponto_coleta_def map_concat comp_def chave_ponto)
qed

lemma soma_concat:
  "sum_list (map f (concat (map g ks))) = sum_list (map (\<lambda>k. sum_list (map f (g k))) ks)"
  by (induction ks) simp_all

lemma soma_pontos:
  "sum_list (map (\<lambda>d. contagem d ''total_analises'') (obter_distribuicao_ponto_coleta fl df)) =
     int (length (filter (\<lambda>r. ponto_de_coleta r \<noteq> None) (linhas df)))"
proof (cases "df_empty df \<or> \<not> has_col ''ponto_de_coleta'' df")
  case True
  have "ponto_de_coleta r = None" if "r \<in> set (linhas df)" for r
    using sem_ponto[OF True that] .
  then have "filter (\<lambda>r. ponto_de_coleta r \<noteq> None) (linhas df) = []"
    by (simp add: filter_empty_conv)
  with True show ?thesis by (simp add: obter_distribuicao_ponto_coleta_def)
next
  case False
  have "sum_list (map (\<lambda>k. length (filter (\<lambda>r. eq_cel (ponto_de_coleta r) k) (linhas df)))
          (unique (map ponto_de_coleta (linhas df))))
        = length (filter (\<lambda>r. ponto_de_coleta r \<noteq> None) (linhas df))"
    using soma_por_chave[of "map ponto_de_coleta (linhas df)", unfolded length_filter_map] .
  with False show ?thesis
    by (simp add: obter_distribuicao_ponto_coleta_def soma_concat contagem_ponto soma_int)
qed

subsection \<open>Months\<close>

lemma filtro_mes_dropna:
  "filter (\<lambda>r. mes r = Some m) (linhas (dropna_mes df)) = filter (\<lambda>r. mes r = Some m) (linhas df)"
  using linhas_dropna_mes[of m "\<lambda>r. True" df] by simp

lemma dados_mes_vazio:
  "filter (\<lambda>r. mes r = Some m) (linhas df) = [] \<Longrightarrow> dados_mes fl df m = []"
  unfolding dados_mes_forma by (simp add: df_len_sel)

lemma chave_mes:
  "map (\<lambda>d. contagem d ''mes'') (dados_mes fl df m) =
     (if \<exists>r\<in>set (linhas df). mes r = Some m then [m] else [])"
proof (cases "filter (\<lambda>r. mes r = Some m) (linhas df) = []")
  case True
  then show ?thesis by (auto simp: dados_mes_vazio filter_empty_conv)
next
  case False
  then have "\<exists>r\<in>set (linhas df). mes r = Some m" by (auto simp: filter_empty_conv)
  with False show ?thesis
    unfolding dados_mes_forma by (simp add: df_len_sel contagem_def)
qed

lemma contagem_mes:
  "sum_list (map (\<lambda>d. contagem d ''total_amostras'') (dados_mes fl df m)) =
     int (length (filter (\<lambda>r. mes r = Some m) (linhas df)))"
proof (cases "filter (\<lambda>r. mes r = Some m) (linhas df) = []")
  case True
  then show ?thesis by (simp add: dados_mes_vazio)
next
  case False
  then show ?thesis
    unfolding dados_mes_forma by (simp add: df_len_sel contagem_def)
qed

lemma chaves_meses_concat:
  "map (\<lambda>d. contagem d ''mes'') (concat (map (dados_mes fl df) ms)) =
     filter (\<lambda>m. \<exists>r\<in>set (linhas df). mes r = Some m) ms"
  by (induction ms) (simp_all add: chave_mes)

lemma existe_mes_dropna:
  "(\<exists>r\<in>set (linhas (dropna_mes df)). mes r = Some m) = (\<exists>r\<in>set (linhas df). mes r = Some m)"
  by (auto simp: dropna_mes_def linhas_sel)

lemma meses_nao_vazio:
  "\<not> (df_empty df \<or> \<not> has_col ''mes'' df) \<Longrightarrow>
   obter_distribuicao_mes fl df =
     concat (map (dados_mes fl (dropna_mes df)) [1, 2, 3, 4, 5, 6, 7, 8, 9, 10, 11, 12])"
  unfolding obter_distribuicao_mes_def Let_def by (rule if_not_P)

lemma chaves_meses:
  "map (\<lambda>d. contagem d ''mes'') (obter_distribuicao_mes fl df) =
     filter (\<lambda>m. \<exists>r\<in>set (linhas df). mes r = Some m) [1, 2, 3, 4, 5, 6, 7, 8, 9, 10, 11, 12]"
proof (cases "df_empty df \<or> \<not> has_col ''mes'' df")
  case True
  have "mes r = None" if "r \<in> set (linhas df)" for r
    using sem_mes[OF True that] .
  then have "filter (\<lambda>m. \<exists>r\<in>set (linhas df). mes r = Some m)
               [1, 2, 3, 4, 5, 6, 7, 8, 9, 10, 11, 12] = []"
    unfolding filter_empty_conv by simp
  moreover from True have "obter_distribuicao_mes fl df = []"
    unfolding obter_distribuicao_mes_def by (rule if_P)
  ultimately show ?thesis by simp
next
  case False
  show ?thesis
    unfolding meses_nao_vazio[OF False] chaves_meses_concat existe_mes_dropna
    by (rule refl)
qed

lemma soma_meses:
  "sum_list (map (\<lambda>d. contagem d ''total_amostras'') (obter_distribuicao_mes fl df)) =
     int (length (filter (\<lambda>r. case mes r of None \<Rightarrow> False | Some m \<Rightarrow> 1 \<le> m \<and> m \<le> 12)
                    (linhas df)))"
proof -
  have s: "(m = 1 \<or> m = 2 \<or> m = 3 \<or> m = 4 \<or> m = 5 \<or> m = 6 \<or> m = 7 \<or> m = 8 \<or> m = 9
            \<or> m = 10 \<or> m = 11 \<or> m = 12) = (1 \<le> m \<and> m \<le> 12)" for m :: int
    by arith
  have d: "distinct [1, 2, 3, 4, 5, 6, 7, 8, 9, 10, 11, 12 :: int]"
    by simp
  have f: "filter (\<lambda>r. \<exists>m\<in>set [1, 2, 3, 4, 5, 6, 7, 8, 9, 10, 11, 12]. mes r = Some m) (linhas df)
           = filter (\<lambda>r. case mes r of None \<Rightarrow> False | Some m \<Rightarrow> 1 \<le> m \<and> m \<le> 12) (linhas df)"
    by (intro filter_cong refl) (simp add: Bex_def s split: option.splits)
  show ?thesis
  proof (cases "df_empty df \<or> \<not> has_col ''mes'' df")
    case True
    have "mes r = None" if "r \<in> set (linhas df)" for r
      using sem_mes[OF True that] .
    then have "filter (\<lambda>r. case mes r of None \<Rightarrow> False | Some m \<Rightarrow> 1 \<le> m \<and> m \<le> 12)
                 (linhas df) = []"
      by (simp add: filter_empty_conv)
    moreover from True have "obter_distribuicao_mes fl df = []"
      unfolding obter_distribuicao_mes_def by (rule if_P)
    ultimately show ?thesis by simp
  next
    case False
    have "sum_list (map (\<lambda>d. contagem d ''total_amostras'')
            (concat (map (dados_mes fl (dropna_mes df)) [1, 2, 3, 4, 5, 6, 7, 8, 9, 10, 11, 12])))
          = int (sum_list (map (\<lambda>m. length (filter (\<lambda>r. mes r = Some m) (linhas df)))
                  [1, 2, 3, 4, 5, 6, 7, 8, 9, 10, 11, 12]))"
      unfolding soma_concat contagem_mes filtro_mes_dropna soma_int by (rule refl)
    also have "\<dots> = int (length (filter (\<lambda>r. case mes r of None \<Rightarrow> False
                                           | Some m \<Rightarrow> 1 \<le> m \<and> m \<le> 12) (linhas df)))"
      unfolding soma_por_valor[OF d] f by (rule refl)
    finally show ?thesis unfolding meses_nao_vazio[OF False] .
  qed
qed

section \<open>The aggregators on the example record sets\<close>

lemma campos_exemplo:
  "bairro amostra_norte = Some ''Norte''" "bairro amostra_centro = Some ''Centro''"
  "ponto_de_coleta amostra_norte = Some ''P2''" "ponto_de_coleta amostra_centro = Some ''P1''"
  "mes amostra_norte = Some 3" "mes amostra_centro = Some 1"
  "parametro amostra_norte = Some ''Turbidez (uT)''"
  "parametro amostra_centro = Some ''Escherichia coli''"
  "conforme amostra_norte = None" "conforme amostra_centro = None"
  by (simp_all add: amostra_norte_def amostra_centro_def coleta_def amostra_def)

lemma campos_sem_chave:
  "bairro amostra_sem_chave = None" "ponto_de_coleta amostra_sem_chave = None"
  "mes amostra_sem_chave = None" "conforme amostra_sem_chave = None"
  by (simp_all add: amostra_sem_chave_def amostra_def)

lemma linhas_exemplo: "linhas quadro_exemplo = [amostra_norte, amostra_centro]"
  by (simp add: linhas_def quadro_exemplo_def visivel_csv campos_exemplo)

lemma linhas_sem_chave: "linhas quadro_sem_chave = [amostra_sem_chave]"
  by (simp add: linhas_def quadro_sem_chave_def visivel_csv campos_sem_chave)

lemma veredictos_exemplo:
  "verificar_conformidade py_float amostra_norte"
  "verificar_conformidade py_float amostra_centro"
  by (simp_all add: verificar_conformidade_def conformidade_try_def amostra_norte_def
      amostra_centro_def coleta_def amostra_def VALORES_REFERENCIA_def isna_num_def
      numeric_test_def str_simps float_simps)

lemma quadros_nao_vazios:
  "\<not> df_empty quadro_exemplo" "\<not> df_empty quadro_sem_chave"
  "has_col ''bairro'' quadro_exemplo" "has_col ''mes'' quadro_exemplo"
  "has_col ''ponto_de_coleta'' quadro_exemplo"
  "has_col ''bairro'' quadro_sem_chave" "has_col ''mes'' quadro_sem_chave"
  "has_col ''ponto_de_coleta'' quadro_sem_chave"
  by (simp_all add: df_empty_def has_col_def quadro_exemplo_def quadro_sem_chave_def
      colunas_csv_def)

lemma bairros_exemplo:
  "obter_dados_bairros py_float quadro_exemplo =
     [dados_bairro py_float quadro_exemplo (Some ''Norte''),
      dados_bairro py_float quadro_exemplo (Some ''Centro'')]"
  by (simp add: obter_dados_bairros_def quadros_nao_vazios linhas_exemplo campos_exemplo)

lemma percentual_um: "percentual py_float [amostra_norte] = 100"
  "percentual py_float [amostra_centro] = 100"
  by (simp_all add: percentual_def conformes_def veredictos_exemplo r64_simps)

lemma pct_conforme_sel:
  assumes "filter P (linhas df) \<noteq> []"
  shows "pct_conforme (com_conforme fl (sel P df)) = VNum (percentual fl (filter P (linhas df)))"
proof -
  from assms have "rws (com_conforme fl (sel P df)) \<noteq> []"
    unfolding linhas_sel[symmetric] by (simp add: linhas_def com_conforme_def)
  then show ?thesis
    by (simp add: pct_conforme_def mean_com_conforme percentual_def linhas_sel df_len_sel)
qed

lemma pontos_exemplo:
  "obter_distribuicao_ponto_coleta py_float quadro_exemplo =
     [[(''ponto_de_coleta'', VStr ''P2''), (''total_analises'', VInt 1),
       (''percentual_conforme'', VNum 100)],
      [(''ponto_de_coleta'', VStr ''P1''), (''total_analises'', VInt 1),
       (''percentual_conforme'', VNum 100)]]"
proof -
  have f: "filter (\<lambda>r. eq_cel (ponto_de_coleta r) (Some ''P2'')) (linhas quadro_exemplo)
             = [amostra_norte]"
    "filter (\<lambda>r. eq_cel (ponto_de_coleta r) (Some ''P1'')) (linhas quadro_exemplo)
             = [amostra_centro]"
    by (simp_all add: linhas_exemplo campos_exemplo eq_cel_def)
  have u: "unique (map ponto_de_coleta (linhas quadro_exemplo)) = [Some ''P2'', Some ''P1'']"
    by (simp add: linhas_exemplo campos_exemplo)
  have p: "pct_conforme (com_conforme py_float
             (sel (\<lambda>r. eq_cel (ponto_de_coleta r) (Some ''P2'')) quadro_exemplo)) = VNum 100"
    "pct_conforme (com_conforme py_float
             (sel (\<lambda>r. eq_cel (ponto_de_coleta r) (Some ''P1'')) quadro_exemplo)) = VNum 100"
    by (simp_all add: pct_conforme_sel f percentual_um)
  show ?thesis
    unfolding obter_distribuicao_ponto_coleta_def Let_def u
    by (simp add: quadros_nao_vazios dados_ponto_forma f p val_of_def)
qed

text \<open>
  C6 as stated has the collection-point aggregator compute a percentage for each named
  parameter. On two samples taken at two points it emits two groups, each with a name, a
  count and an overall percentage and nothing else: the turbidity sample at P2 leaves no
  entry for turbidity in the group of P2.
\<close>

theorem point_groups_counterexample:
  "obter_distribuicao_ponto_coleta py_float quadro_exemplo =
     [[(''ponto_de_coleta'', VStr ''P2''), (''total_analises'', VInt 1),
       (''percentual_conforme'', VNum 100)],
      [(''ponto_de_coleta'', VStr ''P1''), (''total_analises'', VInt 1),
       (''percentual_conforme'', VNum 100)]]
   \<and> map_of [(''ponto_de_coleta'', VStr ''P2''), (''total_analises'', VInt 1),
              (''percentual_conforme'', VNum 100)]
        (''percentual_'' @ param_key ''Turbidez (uT)'') = None
   \<and> parametro amostra_norte = Some ''Turbidez (uT)''
   \<and> ponto_de_coleta amostra_norte = Some ''P2''"
  by (simp add: pontos_exemplo param_keys campos_exemplo)

lemma meses_exemplo:
  "map (\<lambda>d. contagem d ''mes'') (obter_distribuicao_mes py_float quadro_exemplo) = [1, 3]"
  unfolding chaves_meses by (simp add: linhas_exemplo campos_exemplo)

lemma chave_inteira_mes:
  assumes "d \<in> set (obter_distribuicao_mes fl df)"
  shows "chave_inteira d ''mes'' = Some (contagem d ''mes'')"
proof -
  from assms obtain m where m: "d \<in> set (dados_mes fl (dropna_mes df) m)"
    by (rule membro_meses)
  have "''Turbidez (uT)'' \<in> set parametros_nomeados"
    by (simp add: parametros_nomeados_def)
  from dados_mes_membro(1)[OF m this] show ?thesis
    by (simp add: chave_inteira_def contagem_def)
qed

theorem group_parameter_percentages_witness:
  "hd (obter_dados_bairros py_float quadro_exemplo)
     \<in> set (obter_dados_bairros py_float quadro_exemplo)
   \<and> ''Turbidez (uT)'' \<in> set parametros_nomeados
   \<and> ''Fluoreto (mg/L)'' \<in> set parametros_nomeados
   \<and> map_of (hd (obter_dados_bairros py_float quadro_exemplo))
        (''percentual_'' @ param_key ''Turbidez (uT)'') = Some (VNum 100)
   \<and> map_of (hd (obter_dados_bairros py_float quadro_exemplo))
        (''percentual_'' @ param_key ''Fluoreto (mg/L)'') = Some VNone
   \<and> hd (obter_distribuicao_mes py_float quadro_exemplo)
       \<in> set (obter_distribuicao_mes py_float quadro_exemplo)
   \<and> map_of (hd (obter_distribuicao_mes py_float quadro_exemplo))
        (''percentual_'' @ param_key ''Turbidez (uT)'') = Some VNone
   \<and> hd (obter_distribuicao_ponto_coleta py_float quadro_exemplo)
       \<in> set (obter_distribuicao_ponto_coleta py_float quadro_exemplo)
   \<and> map fst (hd (obter_distribuicao_ponto_coleta py_float quadro_exemplo))
       = [''ponto_de_coleta'', ''total_analises'', ''percentual_conforme'']"
proof -
  let ?B = "obter_dados_bairros py_float quadro_exemplo"
  let ?M = "obter_distribuicao_mes py_float quadro_exemplo"
  let ?P = "obter_distribuicao_ponto_coleta py_float quadro_exemplo"
  note t = group_parameter_percentages[of py_float quadro_exemplo]
  have tu: "''Turbidez (uT)'' \<in> set parametros_nomeados"
    and fu: "''Fluoreto (mg/L)'' \<in> set parametros_nomeados"
    by (simp_all add: parametros_nomeados_def)
  have hB: "hd ?B \<in> set ?B" by (simp add: bairros_exemplo)
  have kB: "chave_texto (hd ?B) ''bairro'' = Some ''Norte''"
    by (simp add: bairros_exemplo chave_texto_bairro)
  have b1: "map_of (hd ?B) (''percentual_'' @ param_key ''Turbidez (uT)'') = Some (VNum 100)"
    using bspec[OF bspec[OF conjunct1[OF t] hB] tu] unfolding kB
    by (simp add: linhas_exemplo campos_exemplo eq_cel_def pct_ou_nulo_def percentual_um)
  have b2: "map_of (hd ?B) (''percentual_'' @ param_key ''Fluoreto (mg/L)'') = Some VNone"
    using bspec[OF bspec[OF conjunct1[OF t] hB] fu] unfolding kB
    by (simp add: linhas_exemplo campos_exemplo eq_cel_def pct_ou_nulo_def)
  have nM: "?M \<noteq> []" using meses_exemplo by auto
  then have hM: "hd ?M \<in> set ?M" by simp
  have "contagem (hd ?M) ''mes'' = hd (map (\<lambda>d. contagem d ''mes'') ?M)"
    using nM by (simp add: hd_map)
  then have kM: "chave_inteira (hd ?M) ''mes'' = Some 1"
    unfolding chave_inteira_mes[OF hM] meses_exemplo by simp
  have m1: "map_of (hd ?M) (''percentual_'' @ param_key ''Turbidez (uT)'') = Some VNone"
    using bspec[OF bspec[OF conjunct1[OF conjunct2[OF t]] hM] tu] unfolding kM
    by (simp add: linhas_exemplo campos_exemplo eq_cel_def pct_ou_nulo_def)
  have hP: "hd ?P \<in> set ?P" by (simp add: pontos_exemplo)
  have p1: "map fst (hd ?P) = [''ponto_de_coleta'', ''total_analises'', ''percentual_conforme'']"
    using bspec[OF conjunct2[OF conjunct2[OF t]] hP] .
  show ?thesis
    using hB tu fu b1 b2 hM m1 hP p1 by (intro conjI)
qed

section \<open>Counts and order of the groups\<close>

lemma sem_chave_mais_com_chave:
  "int (length (filter (\<lambda>r. \<not> P r) rs)) = int (length rs) - int (length (filter P rs))"
  using sum_length_filter_compl[of P rs] by simp

text \<open>
  C7 (as the code has it). For each grouping aggregator the sample counts of the emitted
  groups add up to the number of records that have the grouping key: the number of records
  less those without a neighbourhood, less those whose month is missing or not one of 1 to
  12, less those without a collection point. The sum is the total when no record lacks
  its key.
\<close>

theorem group_counts_sum:
  "sum_list (map (\<lambda>d. contagem d ''total_analises'') (obter_dados_bairros fl df)) =
     int (df_len df) - int (length (filter (\<lambda>r. bairro r = None) (linhas df)))
   \<and> sum_list (map (\<lambda>d. contagem d ''total_amostras'') (obter_distribuicao_mes fl df)) =
     int (df_len df)
       - int (length (filter (\<lambda>r. case mes r of None \<Rightarrow> True | Some m \<Rightarrow> m < 1 \<or> 12 < m)
                        (linhas df)))
   \<and> sum_list (map (\<lambda>d. contagem d ''total_analises'') (obter_distribuicao_ponto_coleta fl df)) =
     int (df_len df) - int (length (filter (\<lambda>r. ponto_de_coleta r = None) (linhas df)))"
proof (intro conjI)
  show "sum_list (map (\<lambda>d. contagem d ''total_analises'') (obter_dados_bairros fl df)) =
     int (df_len df) - int (length (filter (\<lambda>r. bairro r = None) (linhas df)))"
    unfolding soma_bairros length_linhas[symmetric]
    using sem_chave_mais_com_chave[of "\<lambda>r. bairro r = None" "linhas df"] by simp
  have "filter (\<lambda>r. case mes r of None \<Rightarrow> False | Some m \<Rightarrow> 1 \<le> m \<and> m \<le> 12) (linhas df)
        = filter (\<lambda>r. \<not> (case mes r of None \<Rightarrow> True | Some m \<Rightarrow> m < 1 \<or> 12 < m)) (linhas df)"
    by (intro filter_cong refl) (auto split: option.splits)
  then show "sum_list (map (\<lambda>d. contagem d ''total_amostras'') (obter_distribuicao_mes fl df)) =
     int (df_len df)
       - int (length (filter (\<lambda>r. case mes r of None \<Rightarrow> True | Some m \<Rightarrow> m < 1 \<or> 12 < m)
                        (linhas df)))"
    unfolding soma_meses length_linhas[symmetric]
    using sem_chave_mais_com_chave[of
        "\<lambda>r. case mes r of None \<Rightarrow> True | Some m \<Rightarrow> m < 1 \<or> 12 < m" "linhas df"]
    by simp
  show "sum_list (map (\<lambda>d. contagem d ''total_analises'')
          (obter_distribuicao_ponto_coleta fl df)) =
     int (df_len df) - int (length (filter (\<lambda>r. ponto_de_coleta r = None) (linhas df)))"
    unfolding soma_pontos length_linhas[symmetric]
    using sem_chave_mais_com_chave[of "\<lambda>r. ponto_de_coleta r = None" "linhas df"] by simp
qed

text \<open>
  C7 as stated has the counts add up to the number of records. A record set with a single
  sample that has no neighbourhood, no month and no collection point has one record, and
  the counts of each of the three aggregators add up to 0.
\<close>

theorem group_counts_counterexample:
  "df_len quadro_sem_chave = 1
   \<and> sum_list (map (\<lambda>d. contagem d ''total_analises'')
        (obter_dados_bairros py_float quadro_sem_chave)) = 0
   \<and> sum_list (map (\<lambda>d. contagem d ''total_amostras'')
        (obter_distribuicao_mes py_float quadro_sem_chave)) = 0
   \<and> sum_list (map (\<lambda>d. contagem d ''total_analises'')
        (obter_distribuicao_ponto_coleta py_float quadro_sem_chave)) = 0"
  unfolding soma_bairros soma_meses soma_pontos linhas_sem_chave
  by (simp add: df_len_def quadro_sem_chave_def campos_sem_chave)

text \<open>
  C9. The neighbourhood aggregator and the collection-point aggregator emit one group per
  key, in the order in which the keys first occur in the record set; every neighbourhood
  and every collection point of the record set has its group. The month aggregator emits
  its groups by increasing month number, one for each month from 1 to 12 that has at least
  one sample and for no other.
\<close>

theorem group_order:
  "sorted_wrt (\<lambda>a b. primeira_pos a (map bairro (linhas df))
                      < primeira_pos b (map bairro (linhas df)))
     (map (\<lambda>d. chave_texto d ''bairro'') (obter_dados_bairros fl df))
   \<and> (\<forall>s. (Some s \<in> set (map (\<lambda>d. chave_texto d ''bairro'') (obter_dados_bairros fl df)))
          = (Some s \<in> set (map bairro (linhas df))))
   \<and> sorted_wrt (\<lambda>a b. primeira_pos a (map ponto_de_coleta (linhas df))
                        < primeira_pos b (map ponto_de_coleta (linhas df)))
       (map (\<lambda>d. chave_texto d ''ponto_de_coleta'') (obter_distribuicao_ponto_coleta fl df))
   \<and> (\<forall>s. (Some s \<in> set (map (\<lambda>d. chave_texto d ''ponto_de_coleta'')
                            (obter_distribuicao_ponto_coleta fl df)))
          = (Some s \<in> set (map ponto_de_coleta (linhas df))))
   \<and> sorted_wrt (<) (map (\<lambda>d. contagem d ''mes'') (obter_distribuicao_mes fl df))
   \<and> (\<forall>m. (m \<in> set (map (\<lambda>d. contagem d ''mes'') (obter_distribuicao_mes fl df)))
          = (1 \<le> m \<and> m \<le> 12 \<and> (\<exists>r\<in>set (linhas df). mes r = Some m)))"
proof (intro conjI allI)
  show "sorted_wrt (\<lambda>a b. primeira_pos a (map bairro (linhas df))
                      < primeira_pos b (map bairro (linhas df)))
     (map (\<lambda>d. chave_texto d ''bairro'') (obter_dados_bairros fl df))"
    unfolding chaves_bairros by (simp add: primeira_pos_unique)
next
  fix s
  have "bairro r = None" if "df_empty df \<or> \<not> has_col ''bairro'' df" "r \<in> set (linhas df)" for r
    using sem_bairro[OF that] .
  then show "(Some s \<in> set (map (\<lambda>d. chave_texto d ''bairro'') (obter_dados_bairros fl df)))
          = (Some s \<in> set (map bairro (linhas df)))"
    unfolding chaves_bairros by (auto simp: set_unique)
next
  show "sorted_wrt (\<lambda>a b. primeira_pos a (map ponto_de_coleta (linhas df))
                        < primeira_pos b (map ponto_de_coleta (linhas df)))
       (map (\<lambda>d. chave_texto d ''ponto_de_coleta'') (obter_distribuicao_ponto_coleta fl df))"
    unfolding chaves_pontos by (intro sorted_wrt_filter primeira_pos_unique)
next
  fix s
  show "(Some s \<in> set (map (\<lambda>d. chave_texto d ''ponto_de_coleta'')
                            (obter_distribuicao_ponto_coleta fl df)))
          = (Some s \<in> set (map ponto_de_coleta (linhas df)))"
    unfolding chaves_pontos by (simp add: set_unique)
next
  have "sorted_wrt (<) [1, 2, 3, 4, 5, 6, 7, 8, 9, 10, 11, 12 :: int]" by simp
  then show "sorted_wrt (<) (map (\<lambda>d. contagem d ''mes'') (obter_distribuicao_mes fl df))"
    unfolding chaves_meses by (rule sorted_wrt_filter)
next
  fix m :: int
  have s: "(m = 1 \<or> m = 2 \<or> m = 3 \<or> m = 4 \<or> m = 5 \<or> m = 6 \<or> m = 7 \<or> m = 8 \<or> m = 9
            \<or> m = 10 \<or> m = 11 \<or> m = 12) = (1 \<le> m \<and> m \<le> 12)"
    by arith
  then have s': "(m \<in> set [1, 2, 3, 4, 5, 6, 7, 8, 9, 10, 11, 12]) = (1 \<le> m \<and> m \<le> 12)"
    by simp
  show "(m \<in> set (map (\<lambda>d. contagem d ''mes'') (obter_distribuicao_mes fl df)))
          = (1 \<le> m \<and> m \<le> 12 \<and> (\<exists>r\<in>set (linhas df). mes r = Some m))"
    unfolding chaves_meses set_filter mem_Collect_eq s' by (simp add: conj_assoc)
qed

section \<open>Properties of the data loader\<close>

lemma filtro_inativo:
  "map_of f k = None \<or> map_of f k = Some (FStr ''todos'') \<Longrightarrow> \<not> filtro_ativo f k"
  by (auto simp: filtro_ativo_def)

text \<open>
  C8. When each of the four filter keys is absent from the criteria or set to the text
  todos, loading returns the same record set as loading with no criteria at all, whatever
  the data source returns or raises.
\<close>

theorem todos_is_no_filter:
  assumes "\<forall>k\<in>set [''ano'', ''mes'', ''bairro'', ''parametro''].
             map_of f k = None \<or> map_of f k = Some (FStr ''todos'')"
  shows "carregar_dados csv (Some f) = carregar_dados csv None"
proof -
  from assms have "\<not> filtro_ativo f ''ano''" "\<not> filtro_ativo f ''mes''"
    "\<not> filtro_ativo f ''bairro''" "\<not> filtro_ativo f ''parametro''"
    by (simp_all add: filtro_inativo)
  then have "carregar_try csv (Some f) = carregar_try csv None"
    by (simp add: carregar_try_def filtra_inteiro_def filtra_texto_def split: sum.splits)
  then show ?thesis by (simp add: carregar_dados_def)
qed

lemma colunas_completas: "foldl add_col \<lparr>cols = colunas_csv, rws = rs\<rparr> expected_cols
                          = \<lparr>cols = colunas_csv, rws = rs\<rparr>"
  by (simp add: expected_cols_def add_col_def colunas_csv_def)

lemma carregar_exemplo:
  "carregar_dados (Inr quadro_exemplo) None = quadro_exemplo"
  by (simp add: carregar_dados_def carregar_try_def quadro_exemplo_def colunas_completas)

theorem todos_is_no_filter_witness:
  "map_of [(''ano'', FStr ''todos''), (''bairro'', FStr ''todos''), (''pagina'', FInt 2)] ''ano''
     = Some (FStr ''todos'')
   \<and> map_of [(''ano'', FStr ''todos''), (''bairro'', FStr ''todos''), (''pagina'', FInt 2)] ''mes''
     = None
   \<and> map_of [(''ano'', FStr ''todos''), (''bairro'', FStr ''todos''), (''pagina'', FInt 2)]
        ''bairro'' = Some (FStr ''todos'')
   \<and> map_of [(''ano'', FStr ''todos''), (''bairro'', FStr ''todos''), (''pagina'', FInt 2)]
        ''parametro'' = None
   \<and> carregar_dados (Inr quadro_exemplo)
        (Some [(''ano'', FStr ''todos''), (''bairro'', FStr ''todos''), (''pagina'', FInt 2)])
       = carregar_dados (Inr quadro_exemplo) None
   \<and> carregar_dados (Inr quadro_exemplo) None = quadro_exemplo"
proof -
  have h: "\<forall>k\<in>set [''ano'', ''mes'', ''bairro'', ''parametro''].
             map_of [(''ano'', FStr ''todos''), (''bairro'', FStr ''todos''), (''pagina'', FInt 2)] k
               = None
           \<or> map_of [(''ano'', FStr ''todos''), (''bairro'', FStr ''todos''), (''pagina'', FInt 2)] k
               = Some (FStr ''todos'')"
    by simp
  show ?thesis
    using todos_is_no_filter[OF h, of "Inr quadro_exemplo"] carregar_exemplo by simp
qed

text \<open>An active filter does select: the year 2023 keeps the one sample of that year.\<close>

lemma filtro_por_ano:
  "carregar_dados (Inr quadro_exemplo) (Some [(''ano'', FStr ''2023''), (''mes'', FStr ''todos'')])
     = \<lparr>cols = colunas_csv, rws = [amostra_norte]\<rparr>"
proof -
  have a: "filtro_ativo [(''ano'', FStr ''2023''), (''mes'', FStr ''todos'')] ''ano''"
    "\<not> filtro_ativo [(''ano'', FStr ''2023''), (''mes'', FStr ''todos'')] ''mes''"
    "\<not> filtro_ativo [(''ano'', FStr ''2023''), (''mes'', FStr ''todos'')] ''bairro''"
    "\<not> filtro_ativo [(''ano'', FStr ''2023''), (''mes'', FStr ''todos'')] ''parametro''"
    by (simp_all add: filtro_ativo_def truthy_def)
  have i: "py_int (FStr ''2023'') = Inr 2023"
    by (simp add: py_int_def float_strip_def float_isspace_def split_sign_def digitpart_def
        digit_of_def)
  have v: "visivel colunas_csv amostra_norte = amostra_norte"
    "visivel colunas_csv amostra_centro = amostra_centro"
    by (simp_all add: visivel_csv campos_exemplo)
  have y: "ano amostra_norte = Some 2023" "ano amostra_centro = Some 2022"
    by (simp_all add: amostra_norte_def amostra_centro_def coleta_def amostra_def)
  have hc: "has_col ''ano'' quadro_exemplo"
    by (simp add: has_col_def quadro_exemplo_def colunas_csv_def)
  have s: "filtra_inteiro ''ano'' ano [(''ano'', FStr ''2023''), (''mes'', FStr ''todos'')]
             quadro_exemplo = Inr \<lparr>cols = colunas_csv, rws = [amostra_norte]\<rparr>"
    using a(1) hc
    by (simp add: filtra_inteiro_def i sel_def quadro_exemplo_def v y)
  have m: "filtra_inteiro ''mes'' mes [(''ano'', FStr ''2023''), (''mes'', FStr ''todos'')] df
             = Inr df" for df
    using a(2) by (simp add: filtra_inteiro_def)
  have t: "filtra_texto ''bairro'' bairro [(''ano'', FStr ''2023''), (''mes'', FStr ''todos'')] df
             = df"
    "filtra_texto ''parametro'' parametro [(''ano'', FStr ''2023''), (''mes'', FStr ''todos'')] df
             = df" for df
    using a(3,4) by (simp_all add: filtra_texto_def)
  show ?thesis
    by (simp add: carregar_dados_def carregar_try_def s m t colunas_completas)
qed

section \<open>Properties of the evaluator on records of any content\<close>









section \<open>Properties of the aggregators on the store\<close>

lemma laco_estende:
  assumes "\<And>k s. c < length s \<Longrightarrow> f k s = (g (s ! c) k, s @ [h (s ! c) k])"
    and "c < length s"
  shows "laco f ks s = (map (g (s ! c)) ks, s @ map (h (s ! c)) ks)"
  using assms(2)
proof (induction ks arbitrary: s)
  case Nil
  show ?case by simp
next
  case (Cons k ks)
  have 1: "f k s = (g (s ! c) k, s @ [h (s ! c) k])"
    using assms(1) Cons.prems by simp
  have 2: "c < length (s @ [h (s ! c) k])" using Cons.prems by simp
  have 3: "(s @ [h (s ! c) k]) ! c = s ! c" using Cons.prems by (simp add: nth_append)
  show ?case
    using Cons.IH[OF 2] by (simp add: 1 3)
qed

lemma dados_bairro_st_forma:
  assumes "c < length s"
  shows "dados_bairro_st fl c k s =
           (dados_bairro fl (s ! c) k,
            s @ [if \<not> df_empty (sel (\<lambda>r. eq_cel (bairro r) k) (s ! c))
                 then com_conforme fl (sel (\<lambda>r. eq_cel (bairro r) k) (s ! c))
                 else sel (\<lambda>r. eq_cel (bairro r) k) (s ! c)])"
  using assms
  by (simp add: dados_bairro_st_def dados_bairro_def novo_def atribui_conforme_def Let_def
      nth_append)

lemma dados_mes_st_forma:
  assumes "c < length s"
  shows "dados_mes_st fl c m s =
           (dados_mes fl (s ! c) m,
            s @ [if 0 < df_len (sel (\<lambda>r. mes r = Some m) (s ! c))
                 then com_conforme fl (sel (\<lambda>r. mes r = Some m) (s ! c))
                 else sel (\<lambda>r. mes r = Some m) (s ! c)])"
  using assms
  by (simp add: dados_mes_st_def dados_mes_def novo_def atribui_conforme_def Let_def
      nth_append)

lemma dados_ponto_st_forma:
  assumes "c < length s"
  shows "dados_ponto_st fl c k s =
           (dados_ponto fl (s ! c) k,
            s @ [if 0 < df_len (sel (\<lambda>r. eq_cel (ponto_de_coleta r) k) (s ! c))
                 then com_conforme fl (sel (\<lambda>r. eq_cel (ponto_de_coleta r) k) (s ! c))
                 else sel (\<lambda>r. eq_cel (ponto_de_coleta r) k) (s ! c)])"
  using assms
  by (simp add: dados_ponto_st_def dados_ponto_def novo_def atribui_conforme_def Let_def
      nth_append)

lemma vazio_com_conforme: "df_empty (com_conforme fl df) = (rws df = [])"
  by (auto simp: df_empty_def com_conforme_def)

lemma calcular_estatisticas_st_forma:
  assumes "a < length s"
  shows "calcular_estatisticas_st fl a s =
           (calcular_estatisticas fl (s ! a),
            s @ [if \<not> df_empty (s ! a) then com_conforme fl (s ! a) else s ! a])"
proof (cases "df_empty (s ! a)")
  case True
  with assms show ?thesis
    by (simp add: calcular_estatisticas_st_def calcular_estatisticas_def copia_def novo_def
        Let_def nth_append)
next
  case False
  then have "rws (s ! a) \<noteq> []" by (simp add: df_empty_def)
  with False assms show ?thesis
    by (simp add: calcular_estatisticas_st_def calcular_estatisticas_def copia_def novo_def
        atribui_conforme_def Let_def nth_append vazio_com_conforme)
qed

lemma obter_dados_bairros_st_forma:
  assumes "a < length s"
  shows "\<exists>ext. obter_dados_bairros_st fl a s = (obter_dados_bairros fl (s ! a), s @ ext)"
proof (cases "df_empty (s ! a) \<or> \<not> has_col ''bairro'' (s ! a)")
  case True
  then have "obter_dados_bairros_st fl a s = (obter_dados_bairros fl (s ! a), s @ [])"
    by (simp add: obter_dados_bairros_st_def obter_dados_bairros_def)
  then show ?thesis by blast
next
  case False
  let ?s1 = "s @ [s ! a]"
  have c: "length s < length ?s1" and n: "?s1 ! length s = s ! a"
    by simp_all
  have "laco (dados_bairro_st fl (length s)) ks ?s1 =
          (map (dados_bairro fl (?s1 ! length s)) ks,
           ?s1 @ map (\<lambda>k. if \<not> df_empty (sel (\<lambda>r. eq_cel (bairro r) k) (?s1 ! length s))
                           then com_conforme fl (sel (\<lambda>r. eq_cel (bairro r) k) (?s1 ! length s))
                           else sel (\<lambda>r. eq_cel (bairro r) k) (?s1 ! length s)) ks)" for ks
    by (rule laco_estende[OF dados_bairro_st_forma c])
  with False have "obter_dados_bairros_st fl a s =
      (obter_dados_bairros fl (s ! a),
       s @ ((s ! a) # map (\<lambda>k. if \<not> df_empty (sel (\<lambda>r. eq_cel (bairro r) k) (s ! a))
                           then com_conforme fl (sel (\<lambda>r. eq_cel (bairro r) k) (s ! a))
                           else sel (\<lambda>r. eq_cel (bairro r) k) (s ! a))
                      (unique (map bairro (linhas (s ! a))))))"
    unfolding obter_dados_bairros_st_def obter_dados_bairros_def copia_def novo_def n
    by (simp add: n Let_def)
  then show ?thesis by blast
qed

lemma obter_distribuicao_ponto_coleta_st_forma:
  assumes "a < length s"
  shows "\<exists>ext. obter_distribuicao_ponto_coleta_st fl a s
                 = (obter_distribuicao_ponto_coleta fl (s ! a), s @ ext)"
proof (cases "df_empty (s ! a) \<or> \<not> has_col ''ponto_de_coleta'' (s ! a)")
  case True
  then have "obter_distribuicao_ponto_coleta_st fl a s
               = (obter_distribuicao_ponto_coleta fl (s ! a), s @ [])"
    by (simp add: obter_distribuicao_ponto_coleta_st_def obter_distribuicao_ponto_coleta_def)
  then show ?thesis by blast
next
  case False
  let ?s1 = "s @ [s ! a]"
  have c: "length s < length ?s1" and n: "?s1 ! length s = s ! a"
    by simp_all
  have "laco (dados_ponto_st fl (length s)) ks ?s1 =
          (map (dados_ponto fl (?s1 ! length s)) ks,
           ?s1 @ map (\<lambda>k. if 0 < df_len (sel (\<lambda>r. eq_cel (ponto_de_coleta r) k) (?s1 ! length s))
                           then com_conforme fl
                                  (sel (\<lambda>r. eq_cel (ponto_de_coleta r) k) (?s1 ! length s))
                           else sel (\<lambda>r. eq_cel (ponto_de_coleta r) k) (?s1 ! length s)) ks)"
    for ks
    by (rule laco_estende[OF dados_ponto_st_forma c])
  with False have "obter_distribuicao_ponto_coleta_st fl a s =
      (obter_distribuicao_ponto_coleta fl (s ! a),
       s @ ((s ! a) # map (\<lambda>k. if 0 < df_len (sel (\<lambda>r. eq_cel (ponto_de_coleta r) k) (s ! a))
                           then com_conforme fl (sel (\<lambda>r. eq_cel (ponto_de_coleta r) k) (s ! a))
                           else sel (\<lambda>r. eq_cel (ponto_de_coleta r) k) (s ! a))
                      (unique (map ponto_de_coleta (linhas (s ! a))))))"
    unfolding obter_distribuicao_ponto_coleta_st_def obter_distribuicao_ponto_coleta_def
      copia_def novo_def n
    by (simp add: n Let_def)
  then show ?thesis by blast
qed

lemma obter_distribuicao_mes_st_forma:
  assumes "a < length s"
  shows "\<exists>ext. obter_distribuicao_mes_st fl a s = (obter_distribuicao_mes fl (s ! a), s @ ext)"
proof (cases "df_empty (s ! a) \<or> \<not> has_col ''mes'' (s ! a)")
  case True
  then have "obter_distribuicao_mes_st fl a s = (obter_distribuicao_mes fl (s ! a), s @ [])"
    by (simp add: obter_distribuicao_mes_st_def obter_distribuicao_mes_def)
  then show ?thesis by blast
next
  case False
  let ?s2 = "s @ [dropna_mes (s ! a)]"
  have u: "(s @ [s ! a])[length s := dropna_mes ((s @ [s ! a]) ! length s)] = ?s2"
    by simp
  have c: "length s < length ?s2" and n: "?s2 ! length s = dropna_mes (s ! a)"
    by simp_all
  have l: "laco (dados_mes_st fl (length s)) ks ?s2 =
          (map (dados_mes fl (?s2 ! length s)) ks,
           ?s2 @ map (\<lambda>m. if 0 < df_len (sel (\<lambda>r. mes r = Some m) (?s2 ! length s))
                           then com_conforme fl (sel (\<lambda>r. mes r = Some m) (?s2 ! length s))
                           else sel (\<lambda>r. mes r = Some m) (?s2 ! length s)) ks)" for ks
    by (rule laco_estende[OF dados_mes_st_forma c])
  have "obter_distribuicao_mes_st fl a s =
      (obter_distribuicao_mes fl (s ! a),
       s @ (dropna_mes (s ! a)
            # map (\<lambda>m. if 0 < df_len (sel (\<lambda>r. mes r = Some m) (dropna_mes (s ! a)))
                        then com_conforme fl (sel (\<lambda>r. mes r = Some m) (dropna_mes (s ! a)))
                        else sel (\<lambda>r. mes r = Some m) (dropna_mes (s ! a)))
                [1, 2, 3, 4, 5, 6, 7, 8, 9, 10, 11, 12]))"
    unfolding obter_distribuicao_mes_st_def obter_distribuicao_mes_def copia_def novo_def
      Let_def if_not_P[OF False] prod.case u l n
    by simp
  then show ?thesis by blast
qed

text \<open>
  C10. Each of the four aggregators, called on a frame of the store, returns what the
  aggregator computes from that frame and leaves every frame that existed before the call
  as it was, the frame it was called on among them: the compliance column is added to
  copies and selections that the call creates.
\<close>

theorem input_unchanged:
  assumes "a < length s"
  shows "take (length s) (snd (calcular_estatisticas_st fl a s)) = s
         \<and> snd (calcular_estatisticas_st fl a s) ! a = s ! a
         \<and> fst (calcular_estatisticas_st fl a s) = calcular_estatisticas fl (s ! a)
         \<and> take (length s) (snd (obter_dados_bairros_st fl a s)) = s
         \<and> snd (obter_dados_bairros_st fl a s) ! a = s ! a
         \<and> fst (obter_dados_bairros_st fl a s) = obter_dados_bairros fl (s ! a)
         \<and> take (length s) (snd (obter_distribuicao_mes_st fl a s)) = s
         \<and> snd (obter_distribuicao_mes_st fl a s) ! a = s ! a
         \<and> fst (obter_distribuicao_mes_st fl a s) = obter_distribuicao_mes fl (s ! a)
         \<and> take (length s) (snd (obter_distribuicao_ponto_coleta_st fl a s)) = s
         \<and> snd (obter_distribuicao_ponto_coleta_st fl a s) ! a = s ! a
         \<and> fst (obter_distribuicao_ponto_coleta_st fl a s)
             = obter_distribuicao_ponto_coleta fl (s ! a)"
proof -
  obtain e1 where 1: "obter_dados_bairros_st fl a s = (obter_dados_bairros fl (s ! a), s @ e1)"
    using obter_dados_bairros_st_forma[OF assms] by blast
  obtain e2 where 2: "obter_distribuicao_mes_st fl a s
                        = (obter_distribuicao_mes fl (s ! a), s @ e2)"
    using obter_distribuicao_mes_st_forma[OF assms] by blast
  obtain e3 where 3: "obter_distribuicao_ponto_coleta_st fl a s
                        = (obter_distribuicao_ponto_coleta fl (s ! a), s @ e3)"
    using obter_distribuicao_ponto_coleta_st_forma[OF assms] by blast
  show ?thesis
    unfolding calcular_estatisticas_st_forma[OF assms] 1 2 3
    using assms by (simp add: nth_append)
qed

theorem input_unchanged_witness:
  "(0::nat) < length [quadro_exemplo]
   \<and> snd (calcular_estatisticas_st py_float 0 [quadro_exemplo])
       = [quadro_exemplo, com_conforme py_float quadro_exemplo]
   \<and> cols (com_conforme py_float quadro_exemplo) = colunas_csv @ [''conforme'']
   \<and> snd (calcular_estatisticas_st py_float 0 [quadro_exemplo]) ! 0 = quadro_exemplo
   \<and> fst (calcular_estatisticas_st py_float 0 [quadro_exemplo])
       = calcular_estatisticas py_float quadro_exemplo
   \<and> snd (obter_dados_bairros_st py_float 0 [quadro_exemplo]) ! 0 = quadro_exemplo
   \<and> snd (obter_distribuicao_mes_st py_float 0 [quadro_exemplo]) ! 0 = quadro_exemplo
   \<and> snd (obter_distribuicao_ponto_coleta_st py_float 0 [quadro_exemplo]) ! 0 = quadro_exemplo"
proof -
  have h: "(0::nat) < length [quadro_exemplo]" by simp
  have c: "cols (com_conforme py_float quadro_exemplo) = colunas_csv @ [''conforme'']"
    by (simp add: com_conforme_def quadro_exemplo_def colunas_csv_def)
  have f: "snd (calcular_estatisticas_st py_float 0 [quadro_exemplo])
             = [quadro_exemplo, com_conforme py_float quadro_exemplo]"
    unfolding calcular_estatisticas_st_forma[OF h] using quadros_nao_vazios(1) by simp
  show ?thesis
    using h c f input_unchanged[OF h, of py_float] by simp
qed

end
